theory Spec2Isabelle
  imports Complex_Main
begin

section \<open>The metrics repository of bridge-backend\<close>

text \<open>
  A shallow embedding of \<^verbatim>\<open>src/repository/metricsRepository.py\<close>: the class
  \<^verbatim>\<open>MetricsRepository\<close>, whose methods turn an operation into one HTTP request (two for
  the table-wide summary) against the table \<^verbatim>\<open>metrics\<close> of a remote REST store and shape
  the answer.

  Conventions of the embedding.
  \<^item> Python values are the datatype \<open>pyval\<close>; a dict is an association list in insertion
    order, read with \<open>map_of\<close> and written with \<open>dict_setitem\<close>.
  \<^item> An exception is a value of \<open>py_exn\<close>; a computation that may raise returns
    \<open>py_exn + 'a\<close>, with \<open>Inl\<close> for the exception.
  \<^item> The remote store and the transport are a parameter \<open>env\<close>: given the requests sent
    so far and the request being sent, it either raises or answers with a response.
  \<^item> Every method threads the list of requests sent so far and returns it extended, so
    that "issues a call" is a statement about that list.
  \<^item> Calls of the logger have no effect on results or requests and are left out.
  \<^item> A float is modelled by the real number it denotes: the rounding of doubles, the
    infinities and NaN are not modelled. What raises is: the conversion of an integer beyond
    the range of a double, and the true division of two integers with such a quotient.
\<close>

subsection \<open>Python values and exceptions\<close>

datatype pyval =
    PNone
  | PBool bool
  | PInt int
  | PFloat real
  | PStr string
  | PList "pyval list"
  | PDict "(string \<times> pyval) list"

text \<open>
  The exceptions the modelled code and the transport raise. All of them are subclasses of
  Python's \<^verbatim>\<open>Exception\<close>, the class the handlers of the repository catch.
  \<open>RequestException\<close> stands for whatever \<^verbatim>\<open>requests\<close> raises when a call fails.
\<close>

datatype py_exn =
    ValueError
  | TypeError
  | KeyError
  | IndexError
  | AttributeError
  | OverflowError
  | ZeroDivisionError
  | JSONDecodeError
  | RequestException

type_synonym pydict = "(string \<times> pyval) list"

text \<open>\<^verbatim>\<open>d[k] = v\<close>: an existing key keeps its place, a new key goes last.\<close>

fun dict_setitem :: "pydict \<Rightarrow> string \<Rightarrow> pyval \<Rightarrow> pydict" where
  "dict_setitem [] k v = [(k, v)]"
| "dict_setitem ((k', v') # d) k v =
     (if k' = k then (k, v) # d else (k', v') # dict_setitem d k v)"

text \<open>
  A dict display \<^verbatim>\<open>{k1: v1, k2: v2, ...}\<close> stores its items from left to right, so a
  key written twice ends up with the later value.
\<close>

definition dict_display :: "(string \<times> pyval) list \<Rightarrow> pydict" where
  "dict_display items = foldl (\<lambda>d (k, v). dict_setitem d k v) [] items"

text \<open>\<^verbatim>\<open>isinstance(v, int)\<close>: \<^verbatim>\<open>bool\<close> is a subclass of \<^verbatim>\<open>int\<close>.\<close>

fun isinstance_int :: "pyval \<Rightarrow> bool" where
  "isinstance_int (PInt i) = True"
| "isinstance_int (PBool b) = True"
| "isinstance_int v = False"

fun isinstance_list :: "pyval \<Rightarrow> bool" where
  "isinstance_list (PList xs) = True"
| "isinstance_list v = False"

text \<open>Truth value of an object, as \<^verbatim>\<open>if data:\<close> tests it.\<close>

fun truthy :: "pyval \<Rightarrow> bool" where
  "truthy PNone = False"
| "truthy (PBool b) = b"
| "truthy (PInt i) = (i \<noteq> 0)"
| "truthy (PFloat r) = (r \<noteq> 0)"
| "truthy (PStr s) = (s \<noteq> [])"
| "truthy (PList xs) = (xs \<noteq> [])"
| "truthy (PDict d) = (d \<noteq> [])"

text \<open>
  \<^verbatim>\<open>x[0]\<close>: the first element of a list, the first character of a string; a dict decoded
  from JSON has string keys only, so the key \<^verbatim>\<open>0\<close> is missing; the other values are not
  subscriptable.
\<close>

fun getitem0 :: "pyval \<Rightarrow> py_exn + pyval" where
  "getitem0 (PList []) = Inl IndexError"
| "getitem0 (PList (x # xs)) = Inr x"
| "getitem0 (PStr []) = Inl IndexError"
| "getitem0 (PStr (c # cs)) = Inr (PStr [c])"
| "getitem0 (PDict d) = Inl KeyError"
| "getitem0 v = Inl TypeError"

subsection \<open>Requests, responses and the remote store\<close>

datatype http_method = GET | POST

record request =
  req_method :: http_method
  req_url :: string
  req_headers :: "(string \<times> string) list"
  req_params :: pydict
  req_json :: "pydict option"

text \<open>
  What the code reads of a response: \<^verbatim>\<open>status_code\<close>, \<^verbatim>\<open>headers.get(name)\<close> (the
  header mapping of \<^verbatim>\<open>requests\<close> is keyed case-insensitively; \<open>resp_headers\<close> is that
  lookup for the lower-case name) and the result of calling \<^verbatim>\<open>json()\<close>, which raises
  when the body is not JSON.
\<close>

record response =
  status_code :: int
  resp_headers :: "string \<rightharpoonup> string"
  resp_json :: "py_exn + pyval"

type_synonym env = "request list \<Rightarrow> request \<Rightarrow> py_exn + response"

type_synonym 'a io = "(py_exn + 'a) \<times> request list"

text \<open>\<^verbatim>\<open>requests.get\<close> and \<^verbatim>\<open>requests.post\<close>: the request is sent, then the call raises or returns.\<close>

definition requests_send :: "env \<Rightarrow> request \<Rightarrow> request list \<Rightarrow> response io" where
  "requests_send env rq sent = (env sent rq, sent @ [rq])"

text \<open>
  \<^verbatim>\<open>try: ... except Exception as e: log; return dflt\<close>: every exception of the body
  becomes the default value; requests already sent stay sent.
\<close>

definition except_Exception :: "pyval io \<Rightarrow> pyval \<Rightarrow> pyval io" where
  "except_Exception body dflt =
     (case body of (Inl e, sent) \<Rightarrow> (Inr dflt, sent) | (Inr v, sent) \<Rightarrow> (Inr v, sent))"

subsection \<open>The repository object\<close>

record MetricsRepository =
  base_url :: string
  headers :: "(string \<times> string) list"
  table_name :: string

text \<open>
  \<^verbatim>\<open>__init__\<close>. The module \<^verbatim>\<open>config\<close> is not part of the sources, so the two values
  read from it, \<^verbatim>\<open>Config.SUPABASE_URL\<close> and \<^verbatim>\<open>Config.SUPABASE_KEY\<close>, are parameters.
\<close>

definition init :: "string \<Rightarrow> string \<Rightarrow> MetricsRepository" where
  "init supabase_url supabase_key =
     \<lparr> base_url = supabase_url @ ''/rest/v1'',
       headers = [(''apikey'', supabase_key),
                  (''Authorization'', ''Bearer '' @ supabase_key),
                  (''Content-Type'', ''application/json''),
                  (''Prefer'', ''return=representation'')],
       table_name = ''metrics'' \<rparr>"

definition table_url :: "MetricsRepository \<Rightarrow> string" where
  "table_url self = base_url self @ ''/'' @ table_name self"

definition http_get :: "MetricsRepository \<Rightarrow> pydict \<Rightarrow> request" where
  "http_get self params =
     \<lparr> req_method = GET, req_url = table_url self, req_headers = headers self,
       req_params = params, req_json = None \<rparr>"

definition http_post :: "MetricsRepository \<Rightarrow> pydict \<Rightarrow> request" where
  "http_post self body =
     \<lparr> req_method = POST, req_url = table_url self, req_headers = headers self,
       req_params = [], req_json = Some body \<rparr>"

subsection \<open>\<^verbatim>\<open>create_metric\<close>\<close>

definition required_fields :: "string list" where
  "required_fields = [''repoID'', ''importID'', ''commitHistScore'', ''complexityScore'']"

text \<open>\<^verbatim>\<open>d[k]\<close> on a dict.\<close>

definition dict_getitem :: "pydict \<Rightarrow> string \<Rightarrow> py_exn + pyval" where
  "dict_getitem d k = (case map_of d k of None \<Rightarrow> Inl KeyError | Some v \<Rightarrow> Inr v)"

text \<open>The body of the \<^verbatim>\<open>try\<close> block, lines 47 to 69.\<close>

definition create_metric_try :: "env \<Rightarrow> MetricsRepository \<Rightarrow> pydict \<Rightarrow> request list \<Rightarrow> pyval io" where
  "create_metric_try env self metric_data sent =
     (if list_ex (\<lambda>field. map_of metric_data field = None) required_fields
      then (Inl ValueError, sent)
      else (case dict_getitem metric_data ''commitHistScore'' of
        Inl e \<Rightarrow> (Inl e, sent)
      | Inr commit \<Rightarrow>
         (if \<not> isinstance_int commit then (Inl ValueError, sent)
          else (case dict_getitem metric_data ''complexityScore'' of
            Inl e \<Rightarrow> (Inl e, sent)
          | Inr complexity \<Rightarrow>
             (if \<not> isinstance_int complexity then (Inl ValueError, sent)
              else (case requests_send env (http_post self metric_data) sent of
                (Inl e, sent') \<Rightarrow> (Inl e, sent')
              | (Inr resp, sent') \<Rightarrow>
                 (if status_code resp = 201
                  then (case resp_json resp of
                          Inl e \<Rightarrow> (Inl e, sent')
                        | Inr created_metric \<Rightarrow>
                            (if isinstance_list created_metric then getitem0 created_metric
                             else Inr created_metric, sent'))
                  else (Inr PNone, sent'))))))))"

definition create_metric :: "env \<Rightarrow> MetricsRepository \<Rightarrow> pydict \<Rightarrow> request list \<Rightarrow> pyval io" where
  "create_metric env self metric_data sent =
     except_Exception (create_metric_try env self metric_data sent) PNone"

subsection \<open>\<^verbatim>\<open>get_metric_by_keys\<close>\<close>

definition get_metric_by_keys_try :: "env \<Rightarrow> MetricsRepository \<Rightarrow> string \<Rightarrow> string \<Rightarrow> request list \<Rightarrow> pyval io" where
  "get_metric_by_keys_try env self repo_id import_id sent =
     (let params = dict_display [(''repoID'', PStr (''eq.'' @ repo_id)),
                                 (''importID'', PStr (''eq.'' @ import_id)),
                                 (''select'', PStr ''*'')]
      in (case requests_send env (http_get self params) sent of
            (Inl e, sent') \<Rightarrow> (Inl e, sent')
          | (Inr resp, sent') \<Rightarrow>
             (if status_code resp = 200
              then (case resp_json resp of
                      Inl e \<Rightarrow> (Inl e, sent')
                    | Inr data \<Rightarrow> (if truthy data then getitem0 data else Inr PNone, sent'))
              else (Inr PNone, sent'))))"

definition get_metric_by_keys :: "env \<Rightarrow> MetricsRepository \<Rightarrow> string \<Rightarrow> string \<Rightarrow> request list \<Rightarrow> pyval io" where
  "get_metric_by_keys env self repo_id import_id sent =
     except_Exception (get_metric_by_keys_try env self repo_id import_id sent) PNone"

subsection \<open>The list methods\<close>

text \<open>
  The four list methods end alike (lines 134 to 138, 167 to 171, 198 to 202 and 234 to
  238): whatever \<^verbatim>\<open>json()\<close> returns on status 200, the empty list on another status.
\<close>

definition json_or_empty :: "response io \<Rightarrow> pyval io" where
  "json_or_empty r =
     (case r of
        (Inl e, sent') \<Rightarrow> (Inl e, sent')
      | (Inr resp, sent') \<Rightarrow>
         (if status_code resp = 200 then (resp_json resp, sent') else (Inr (PList []), sent')))"

text \<open>The defaults \<^verbatim>\<open>limit=100, offset=0\<close> of the three paginated methods.\<close>

definition default_limit :: int where
  "default_limit = 100"

definition default_offset :: int where
  "default_offset = 0"

definition get_metrics_by_repo_try :: "env \<Rightarrow> MetricsRepository \<Rightarrow> string \<Rightarrow> int \<Rightarrow> int \<Rightarrow> request list \<Rightarrow> pyval io" where
  "get_metrics_by_repo_try env self repo_id limit offset sent =
     (let params = dict_display [(''repoID'', PStr (''eq.'' @ repo_id)), (''select'', PStr ''*''),
                                 (''limit'', PInt limit), (''offset'', PInt offset)]
      in json_or_empty (requests_send env (http_get self params) sent))"

definition get_metrics_by_repo :: "env \<Rightarrow> MetricsRepository \<Rightarrow> string \<Rightarrow> int \<Rightarrow> int \<Rightarrow> request list \<Rightarrow> pyval io" where
  "get_metrics_by_repo env self repo_id limit offset sent =
     except_Exception (get_metrics_by_repo_try env self repo_id limit offset sent) (PList [])"

definition get_metrics_by_import_try :: "env \<Rightarrow> MetricsRepository \<Rightarrow> string \<Rightarrow> int \<Rightarrow> int \<Rightarrow> request list \<Rightarrow> pyval io" where
  "get_metrics_by_import_try env self import_id limit offset sent =
     (let params = dict_display [(''importID'', PStr (''eq.'' @ import_id)), (''select'', PStr ''*''),
                                 (''limit'', PInt limit), (''offset'', PInt offset)]
      in json_or_empty (requests_send env (http_get self params) sent))"

definition get_metrics_by_import :: "env \<Rightarrow> MetricsRepository \<Rightarrow> string \<Rightarrow> int \<Rightarrow> int \<Rightarrow> request list \<Rightarrow> pyval io" where
  "get_metrics_by_import env self import_id limit offset sent =
     except_Exception (get_metrics_by_import_try env self import_id limit offset sent) (PList [])"

definition get_all_metrics_try :: "env \<Rightarrow> MetricsRepository \<Rightarrow> int \<Rightarrow> int \<Rightarrow> request list \<Rightarrow> pyval io" where
  "get_all_metrics_try env self limit offset sent =
     (let params = dict_display [(''select'', PStr ''*''), (''limit'', PInt limit),
                                 (''offset'', PInt offset)]
      in json_or_empty (requests_send env (http_get self params) sent))"

definition get_all_metrics :: "env \<Rightarrow> MetricsRepository \<Rightarrow> int \<Rightarrow> int \<Rightarrow> request list \<Rightarrow> pyval io" where
  "get_all_metrics env self limit offset sent =
     except_Exception (get_all_metrics_try env self limit offset sent) (PList [])"

subsection \<open>\<^verbatim>\<open>get_metrics_by_score_range\<close>\<close>

text \<open>\<^verbatim>\<open>str(n)\<close> of an integer, which is what an f-string writes for it.\<close>

definition digit_char :: "nat \<Rightarrow> char" where
  "digit_char d = ''0123456789'' ! d"

fun str_nat :: "nat \<Rightarrow> string" where
  "str_nat n =
     (if n < 10 then [digit_char n]
      else str_nat (n div 10) @ [digit_char (n mod 10)])"

declare str_nat.simps [simp del]

definition str_int :: "int \<Rightarrow> string" where
  "str_int i = (if i < 0 then CHR ''-'' # str_nat (nat (- i)) else str_nat (nat i))"

definition valid_score_fields :: "string list" where
  "valid_score_fields =
     [''commitHistScore'', ''complexityScore'', ''churnScore'', ''totalScore'',
      ''packageVersionScore'']"

text \<open>
  Lines 226 to 230: the dict display names the key \<^verbatim>\<open>score_field\<close> twice, once as
  \<^verbatim>\<open>score_field\<close> and once as \<^verbatim>\<open>f'{score_field}'\<close>, which is the same string.
\<close>

definition score_range_params :: "string \<Rightarrow> int \<Rightarrow> int \<Rightarrow> pydict" where
  "score_range_params score_field min_score max_score =
     dict_display [(''select'', PStr ''*''),
                   (score_field, PStr (''gte.'' @ str_int min_score)),
                   (score_field, PStr (''lte.'' @ str_int max_score))]"

definition get_metrics_by_score_range_try :: "env \<Rightarrow> MetricsRepository \<Rightarrow> string \<Rightarrow> int \<Rightarrow> int \<Rightarrow> request list \<Rightarrow> pyval io" where
  "get_metrics_by_score_range_try env self score_field min_score max_score sent =
     (if score_field \<notin> set valid_score_fields then (Inl ValueError, sent)
      else (let params = score_range_params score_field min_score max_score
            in json_or_empty (requests_send env (http_get self params) sent)))"

definition get_metrics_by_score_range :: "env \<Rightarrow> MetricsRepository \<Rightarrow> string \<Rightarrow> int \<Rightarrow> int \<Rightarrow> request list \<Rightarrow> pyval io" where
  "get_metrics_by_score_range env self score_field min_score max_score sent =
     except_Exception
       (get_metrics_by_score_range_try env self score_field min_score max_score sent)
       (PList [])"

subsection \<open>Averages of the score fields\<close>

definition score_fields :: "string list" where
  "score_fields =
     [''commitHistScore'', ''complexityScore'', ''churnScore'', ''totalScore'',
      ''packageVersionScore'']"

text \<open>\<^verbatim>\<open>for metric in all_metrics\<close>: a list yields its elements, a dict its keys, a string its characters.\<close>

fun py_iter :: "pyval \<Rightarrow> py_exn + pyval list" where
  "py_iter (PList xs) = Inr xs"
| "py_iter (PDict d) = Inr (map (\<lambda>(k, v). PStr k) d)"
| "py_iter (PStr s) = Inr (map (\<lambda>c. PStr [c]) s)"
| "py_iter v = Inl TypeError"

text \<open>\<^verbatim>\<open>metric.get(field)\<close>: only a dict has the method.\<close>

fun py_get :: "pyval \<Rightarrow> string \<Rightarrow> py_exn + pyval" where
  "py_get (PDict d) field = Inr (case map_of d field of None \<Rightarrow> PNone | Some v \<Rightarrow> v)"
| "py_get v field = Inl AttributeError"

text \<open>\<^verbatim>\<open>metric[field]\<close> with a string as the subscript.\<close>

fun py_getitem :: "pyval \<Rightarrow> string \<Rightarrow> py_exn + pyval" where
  "py_getitem (PDict d) field = dict_getitem d field"
| "py_getitem v field = Inl TypeError"

text \<open>
  \<^verbatim>\<open>[metric[field] for metric in all_metrics if metric.get(field) is not None]\<close>,
  over the elements the iteration yields.
\<close>

fun valid_scores :: "string \<Rightarrow> pyval list \<Rightarrow> py_exn + pyval list" where
  "valid_scores field [] = Inr []"
| "valid_scores field (metric # rest) =
     (case py_get metric field of
        Inl e \<Rightarrow> Inl e
      | Inr v \<Rightarrow>
         (if v \<noteq> PNone
          then (case py_getitem metric field of
                  Inl e \<Rightarrow> Inl e
                | Inr x \<Rightarrow>
                   (case valid_scores field rest of Inl e \<Rightarrow> Inl e | Inr xs \<Rightarrow> Inr (x # xs)))
          else valid_scores field rest))"

text \<open>
  \<^verbatim>\<open>sum\<close> starts from the integer 0 and adds the elements from left to right, so the
  running total is an integer or a float.
\<close>

datatype number = NInt int | NFloat real

text \<open>
  The conversion of an integer operand to a float, which an addition with a float does
  first: it raises when the nearest double is beyond the largest one, which is when the
  magnitude reaches \<open>2^1024 - 2^970\<close>.
\<close>

definition float_of_int :: "int \<Rightarrow> py_exn + real" where
  "float_of_int i =
     (if 2 ^ 1024 - 2 ^ 970 \<le> \<bar>real_of_int i\<bar> then Inl OverflowError else Inr (real_of_int i))"

fun add_number :: "number \<Rightarrow> pyval \<Rightarrow> py_exn + number" where
  "add_number (NInt a) (PInt b) = Inr (NInt (a + b))"
| "add_number (NInt a) (PBool b) = Inr (NInt (a + (if b then 1 else 0)))"
| "add_number (NInt a) (PFloat b) =
     (case float_of_int a of Inl e \<Rightarrow> Inl e | Inr x \<Rightarrow> Inr (NFloat (x + b)))"
| "add_number (NFloat a) (PInt b) =
     (case float_of_int b of Inl e \<Rightarrow> Inl e | Inr y \<Rightarrow> Inr (NFloat (a + y)))"
| "add_number (NFloat a) (PBool b) = Inr (NFloat (a + (if b then 1 else 0)))"
| "add_number (NFloat a) (PFloat b) = Inr (NFloat (a + b))"
| "add_number tot v = Inl TypeError"

fun sum_from :: "number \<Rightarrow> pyval list \<Rightarrow> py_exn + number" where
  "sum_from tot [] = Inr tot"
| "sum_from tot (x # xs) =
     (case add_number tot x of Inl e \<Rightarrow> Inl e | Inr tot' \<Rightarrow> sum_from tot' xs)"

definition py_sum :: "pyval list \<Rightarrow> py_exn + number" where
  "py_sum xs = sum_from (NInt 0) xs"

text \<open>
  \<^verbatim>\<open>tot / n\<close> with \<^verbatim>\<open>n = len(...)\<close>. The quotient of two integers is the double
  nearest to the exact quotient, and the division raises when that is beyond the largest
  double, which is when the exact quotient reaches \<open>2^1024 - 2^970\<close> in magnitude.
\<close>

definition truediv :: "number \<Rightarrow> nat \<Rightarrow> py_exn + pyval" where
  "truediv tot n =
     (if n = 0 then Inl ZeroDivisionError
      else (case tot of
              NInt a \<Rightarrow>
                (if 2 ^ 1024 - 2 ^ 970 \<le> \<bar>real_of_int a / real n\<bar> then Inl OverflowError
                 else Inr (PFloat (real_of_int a / real n)))
            | NFloat a \<Rightarrow> Inr (PFloat (a / real n))))"

text \<open>One round of the loop over the score fields (lines 276 to 280 and 311 to 315): the value stored under \<^verbatim>\<open>avg_<field>\<close>.\<close>

definition average_of :: "string \<Rightarrow> pyval \<Rightarrow> py_exn + pyval" where
  "average_of field all_metrics =
     (case py_iter all_metrics of
        Inl e \<Rightarrow> Inl e
      | Inr ms \<Rightarrow>
         (case valid_scores field ms of
            Inl e \<Rightarrow> Inl e
          | Inr scores \<Rightarrow>
             (if scores \<noteq> []
              then (case py_sum scores of
                      Inl e \<Rightarrow> Inl e
                    | Inr tot \<Rightarrow> truediv tot (length scores))
              else Inr PNone)))"

fun average_scores_loop :: "string list \<Rightarrow> pyval \<Rightarrow> pydict \<Rightarrow> py_exn + pydict" where
  "average_scores_loop [] all_metrics avg_scores = Inr avg_scores"
| "average_scores_loop (field # rest) all_metrics avg_scores =
     (case average_of field all_metrics of
        Inl e \<Rightarrow> Inl e
      | Inr a \<Rightarrow>
          average_scores_loop rest all_metrics (dict_setitem avg_scores (''avg_'' @ field) a))"

subsection \<open>\<^verbatim>\<open>get_metrics_summary\<close>\<close>

text \<open>\<^verbatim>\<open>s.split('/')[-1]\<close>: what follows the last slash, the whole string when there is none.\<close>

definition last_segment :: "string \<Rightarrow> string" where
  "last_segment s = rev (takeWhile (\<lambda>c. c \<noteq> CHR ''/'') (rev s))"

text \<open>
  \<^verbatim>\<open>int(s)\<close> on a string: white space around the literal is dropped, a sign may come
  first, then decimal digits, with single underscores allowed between digits; anything
  else raises \<^verbatim>\<open>ValueError\<close>. A header value holds code points below 256, of which
  the white space ones are listed. The limit that recent interpreters put on the number of
  digits of such a literal (4300 unless configured) is not modelled.
\<close>

definition py_isspace :: "char \<Rightarrow> bool" where
  "py_isspace c = ((of_char c :: nat) \<in> set [9, 10, 11, 12, 13, 28, 29, 30, 31, 32, 133, 160])"

definition py_strip :: "string \<Rightarrow> string" where
  "py_strip s = rev (dropWhile py_isspace (rev (dropWhile py_isspace s)))"

definition is_digit :: "char \<Rightarrow> bool" where
  "is_digit c = (48 \<le> (of_char c :: nat) \<and> (of_char c :: nat) \<le> 57)"

definition digit_val :: "char \<Rightarrow> nat" where
  "digit_val c = of_char c - 48"

fun digits_from :: "nat \<Rightarrow> string \<Rightarrow> py_exn + nat" where
  "digits_from acc [] = Inr acc"
| "digits_from acc [c] = (if is_digit c then Inr (10 * acc + digit_val c) else Inl ValueError)"
| "digits_from acc (c # d # cs) =
     (if is_digit c then digits_from (10 * acc + digit_val c) (d # cs)
      else if c = CHR ''_'' \<and> is_digit d then digits_from acc (d # cs)
      else Inl ValueError)"

definition parse_digits :: "string \<Rightarrow> py_exn + nat" where
  "parse_digits s =
     (case s of
        [] \<Rightarrow> Inl ValueError
      | c # cs \<Rightarrow> (if is_digit c then digits_from (digit_val c) cs else Inl ValueError))"

definition py_int :: "string \<Rightarrow> py_exn + int" where
  "py_int s =
     (case py_strip s of
        [] \<Rightarrow> Inl ValueError
      | c # cs \<Rightarrow>
         (if c = CHR ''-''
          then (case parse_digits cs of Inl e \<Rightarrow> Inl e | Inr n \<Rightarrow> Inr (- int n))
          else if c = CHR ''+''
          then (case parse_digits cs of Inl e \<Rightarrow> Inl e | Inr n \<Rightarrow> Inr (int n))
          else (case parse_digits (c # cs) of Inl e \<Rightarrow> Inl e | Inr n \<Rightarrow> Inr (int n))))"

text \<open>Lines 261 to 266: the total read from the answer to the count request.\<close>

definition total_count_of :: "response \<Rightarrow> py_exn + int" where
  "total_count_of count_response =
     (if status_code count_response = 200
      then (case resp_headers count_response ''content-range'' of
              None \<Rightarrow> Inr 0
            | Some count_header \<Rightarrow>
               (if count_header \<noteq> [] then py_int (last_segment count_header) else Inr 0))
      else Inr 0)"

definition count_params :: pydict where
  "count_params = dict_display [(''select'', PStr ''count''), (''count'', PStr ''exact'')]"

definition summary :: "int \<Rightarrow> pydict \<Rightarrow> pyval" where
  "summary total_count avg_scores =
     PDict (dict_display [(''total_count'', PInt total_count),
                          (''average_scores'', PDict avg_scores)])"

definition get_metrics_summary_try :: "env \<Rightarrow> MetricsRepository \<Rightarrow> request list \<Rightarrow> pyval io" where
  "get_metrics_summary_try env self sent =
     (case requests_send env (http_get self count_params) sent of
        (Inl e, sent1) \<Rightarrow> (Inl e, sent1)
      | (Inr count_response, sent1) \<Rightarrow>
         (case total_count_of count_response of
            Inl e \<Rightarrow> (Inl e, sent1)
          | Inr total_count \<Rightarrow>
             (case get_all_metrics env self 1000 default_offset sent1 of
                (Inl e, sent2) \<Rightarrow> (Inl e, sent2)
              | (Inr all_metrics, sent2) \<Rightarrow>
                 (if truthy all_metrics
                  then (case average_scores_loop score_fields all_metrics [] of
                          Inl e \<Rightarrow> (Inl e, sent2)
                        | Inr avg_scores \<Rightarrow> (Inr (summary total_count avg_scores), sent2))
                  else (Inr (summary total_count []), sent2)))))"

definition get_metrics_summary :: "env \<Rightarrow> MetricsRepository \<Rightarrow> request list \<Rightarrow> pyval io" where
  "get_metrics_summary env self sent =
     except_Exception (get_metrics_summary_try env self sent) (summary 0 [])"

subsection \<open>\<^verbatim>\<open>get_repo_metrics_summary\<close>\<close>

fun py_len :: "pyval \<Rightarrow> py_exn + nat" where
  "py_len (PList xs) = Inr (length xs)"
| "py_len (PDict d) = Inr (length d)"
| "py_len (PStr s) = Inr (length s)"
| "py_len v = Inl TypeError"

definition repo_summary :: "string \<Rightarrow> int \<Rightarrow> pydict \<Rightarrow> pyval" where
  "repo_summary repo_id metric_count avg_scores =
     PDict (dict_display [(''repo_id'', PStr repo_id),
                          (''metric_count'', PInt metric_count),
                          (''average_scores'', PDict avg_scores)])"

text \<open>Line 302 calls \<^verbatim>\<open>get_metrics_by_repo(repo_id)\<close>, so with the default limit and offset.\<close>

definition get_repo_metrics_summary_try :: "env \<Rightarrow> MetricsRepository \<Rightarrow> string \<Rightarrow> request list \<Rightarrow> pyval io" where
  "get_repo_metrics_summary_try env self repo_id sent =
     (case get_metrics_by_repo env self repo_id default_limit default_offset sent of
        (Inl e, sent') \<Rightarrow> (Inl e, sent')
      | (Inr metrics, sent') \<Rightarrow>
         (if \<not> truthy metrics then (Inr (repo_summary repo_id 0 []), sent')
          else (case average_scores_loop score_fields metrics [] of
                  Inl e \<Rightarrow> (Inl e, sent')
                | Inr avg_scores \<Rightarrow>
                   (case py_len metrics of
                      Inl e \<Rightarrow> (Inl e, sent')
                    | Inr n \<Rightarrow> (Inr (repo_summary repo_id (int n) avg_scores), sent')))))"

definition get_repo_metrics_summary :: "env \<Rightarrow> MetricsRepository \<Rightarrow> string \<Rightarrow> request list \<Rightarrow> pyval io" where
  "get_repo_metrics_summary env self repo_id sent =
     except_Exception (get_repo_metrics_summary_try env self repo_id sent)
       (repo_summary repo_id 0 [])"

section \<open>Terms of the specification and example stores\<close>

text \<open>
  A valid payload, in the words of the specification: the four required fields are
  present and the two required scores are integers.
\<close>

definition valid_payload :: "pydict \<Rightarrow> bool" where
  "valid_payload metric_data =
     ((\<forall>field \<in> set required_fields. map_of metric_data field \<noteq> None) \<and>
      (case map_of metric_data ''commitHistScore'' of None \<Rightarrow> False | Some v \<Rightarrow> isinstance_int v) \<and>
      (case map_of metric_data ''complexityScore'' of None \<Rightarrow> False | Some v \<Rightarrow> isinstance_int v))"

text \<open>
  A record as the data model has it: a dict whose score fields are each absent, null or an
  integer. The integer is within the range of a double (below \<open>2^1024 - 2^970\<close> in
  magnitude), so that the true division of the sum by the count does not overflow.
\<close>

fun score_ok :: "pyval \<Rightarrow> bool" where
  "score_ok PNone = True"
| "score_ok (PInt i) = (\<bar>real_of_int i\<bar> < 2 ^ 1024 - 2 ^ 970)"
| "score_ok v = False"

fun record_ok :: "pyval \<Rightarrow> bool" where
  "record_ok (PDict d) =
     list_all (\<lambda>field. case map_of d field of None \<Rightarrow> True | Some v \<Rightarrow> score_ok v) score_fields"
| "record_ok v = False"

text \<open>
  The averages in the words of the specification: for each score field, the arithmetic
  mean of its non-null values across the records, and \<^verbatim>\<open>None\<close> when there is none.
\<close>

fun non_null_scores :: "string \<Rightarrow> pyval list \<Rightarrow> int list" where
  "non_null_scores field [] = []"
| "non_null_scores field (PDict d # ms) =
     (case map_of d field of
        Some (PInt i) \<Rightarrow> i # non_null_scores field ms
      | _ \<Rightarrow> non_null_scores field ms)"
| "non_null_scores field (m # ms) = non_null_scores field ms"

definition mean_of :: "int list \<Rightarrow> pyval" where
  "mean_of xs =
     (if xs = [] then PNone else PFloat (real_of_int (sum_list xs) / real (length xs)))"

definition expected_averages :: "pyval list \<Rightarrow> pydict" where
  "expected_averages ms =
     map (\<lambda>field. (''avg_'' @ field, mean_of (non_null_scores field ms))) score_fields"

text \<open>Concrete repositories, stores and payloads, for the examples.\<close>

definition repo0 :: MetricsRepository where
  "repo0 = init ''https://store.example'' ''secret''"

definition answering :: "int \<Rightarrow> (string \<rightharpoonup> string) \<Rightarrow> py_exn + pyval \<Rightarrow> env" where
  "answering status hdrs body sent rq =
     Inr \<lparr> status_code = status, resp_headers = hdrs, resp_json = body \<rparr>"

definition offline :: env where
  "offline sent rq = Inl RequestException"

definition payload0 :: pydict where
  "payload0 = [(''repoID'', PStr ''r1''), (''importID'', PStr ''i1''),
               (''commitHistScore'', PInt 7), (''complexityScore'', PInt 3)]"

text \<open>
  Modelled from the spec: the remote store, an external service whose contract is section 6
  of the specification. A \<^verbatim>\<open>GET\<close> answers 200 with the rows that satisfy every filter
  parameter (\<^verbatim>\<open>field=eq.<value>\<close>, \<^verbatim>\<open>field=gte.<value>\<close>, \<^verbatim>\<open>field=lte.<value>\<close>), cut
  to the page that \<^verbatim>\<open>offset\<close> and \<^verbatim>\<open>limit\<close> ask for; a \<^verbatim>\<open>POST\<close> answers 201 with the
  created row in an array, and the row is in the table from then on. It is used in examples
  only: the methods themselves are stated for every store.
\<close>

definition satisfies :: "pyval \<Rightarrow> string \<Rightarrow> bool" where
  "satisfies v cond =
     (if take 3 cond = ''eq.''
      then (case v of PStr s \<Rightarrow> s = drop 3 cond
                    | PInt i \<Rightarrow> py_int (drop 3 cond) = Inr i
                    | _ \<Rightarrow> False)
      else if take 4 cond = ''gte.''
      then (case v of PInt i \<Rightarrow> (case py_int (drop 4 cond) of Inr n \<Rightarrow> n \<le> i | Inl e \<Rightarrow> False)
                    | _ \<Rightarrow> False)
      else if take 4 cond = ''lte.''
      then (case v of PInt i \<Rightarrow> (case py_int (drop 4 cond) of Inr n \<Rightarrow> i \<le> n | Inl e \<Rightarrow> False)
                    | _ \<Rightarrow> False)
      else False)"

definition row_matches :: "pydict \<Rightarrow> pyval \<Rightarrow> bool" where
  "row_matches params row =
     list_all (\<lambda>(k, c). k \<in> set [''select'', ''limit'', ''offset'', ''count''] \<or>
                 (case (c, py_get row k) of
                    (PStr cond, Inr v) \<Rightarrow> satisfies v cond
                  | _ \<Rightarrow> False))
       params"

definition page :: "pydict \<Rightarrow> pyval list \<Rightarrow> pyval list" where
  "page params rows =
     (let rest = (case map_of params ''offset'' of Some (PInt n) \<Rightarrow> drop (nat n) rows | _ \<Rightarrow> rows)
      in (case map_of params ''limit'' of Some (PInt n) \<Rightarrow> take (nat n) rest | _ \<Rightarrow> rest))"

definition posted :: "request list \<Rightarrow> pyval list" where
  "posted sent = concat (map (\<lambda>rq. case req_json rq of None \<Rightarrow> [] | Some body \<Rightarrow> [PDict body]) sent)"

definition rest_store :: "pyval list \<Rightarrow> env" where
  "rest_store rows sent rq =
     (case req_method rq of
        GET \<Rightarrow>
          Inr \<lparr> status_code = 200, resp_headers = Map.empty,
                resp_json = Inr (PList (page (req_params rq)
                                   (filter (row_matches (req_params rq)) (rows @ posted sent)))) \<rparr>
      | POST \<Rightarrow>
          Inr \<lparr> status_code = 201, resp_headers = Map.empty,
                resp_json = Inr (PList (case req_json rq of None \<Rightarrow> [] | Some body \<Rightarrow> [PDict body])) \<rparr>)"

text \<open>A row of the table with given keys and required scores.\<close>

definition row :: "string \<Rightarrow> string \<Rightarrow> int \<Rightarrow> int \<Rightarrow> pyval" where
  "row r i c x =
     PDict [(''repoID'', PStr r), (''importID'', PStr i), (''commitHistScore'', PInt c),
            (''complexityScore'', PInt x), (''totalScore'', PInt (c + x))]"

text \<open>A store whose first answer is given, and which behaves as another store afterwards.\<close>

definition first_then :: "(py_exn + response) \<Rightarrow> env \<Rightarrow> env" where
  "first_then r env sent rq = (if sent = [] then r else env sent rq)"

text \<open>The rows of a repository in a table, and a table of \<open>n\<close> rows of one repository.\<close>

definition rows_of_repo :: "string \<Rightarrow> pyval list \<Rightarrow> pyval list" where
  "rows_of_repo repo_id rows = filter (\<lambda>m. py_get m ''repoID'' = Inr (PStr repo_id)) rows"

definition many_rows :: "nat \<Rightarrow> pyval list" where
  "many_rows n = map (\<lambda>k. row ''r1'' (str_nat k) 7 3) [0..<n]"

definition rows2 :: "pyval list" where
  "rows2 = [row ''r1'' ''i1'' 1 4, row ''r1'' ''i2'' 2 6]"

text \<open>The answer to a count request: status 200 with a \<^verbatim>\<open>content-range\<close> header.\<close>

definition counted :: "string \<Rightarrow> py_exn + response" where
  "counted content_range =
     Inr \<lparr> status_code = 200, resp_headers = [''content-range'' \<mapsto> content_range],
           resp_json = Inr (PList [PDict [(''count'', PInt 0)]]) \<rparr>"

section \<open>Properties\<close>

lemma except_Exception_simps:
  "except_Exception (Inl e, sent) dflt = (Inr dflt, sent)"
  "except_Exception (Inr v, sent) dflt = (Inr v, sent)"
  by (simp_all add: except_Exception_def)

subsection \<open>Creating a metric\<close>

lemma create_metric_try_valid:
  assumes "valid_payload metric_data"
  shows "create_metric_try env self metric_data sent =
     (case env sent (http_post self metric_data) of
        Inl e \<Rightarrow> (Inl e, sent @ [http_post self metric_data])
      | Inr resp \<Rightarrow>
         (if status_code resp = 201
          then (case resp_json resp of
                  Inl e \<Rightarrow> (Inl e, sent @ [http_post self metric_data])
                | Inr created_metric \<Rightarrow>
                    (if isinstance_list created_metric then getitem0 created_metric
                     else Inr created_metric, sent @ [http_post self metric_data]))
          else (Inr PNone, sent @ [http_post self metric_data])))"
  using assms
  by (auto simp: valid_payload_def create_metric_try_def required_fields_def dict_getitem_def
      requests_send_def list_ex_iff split: option.splits sum.splits)

lemma create_metric_try_invalid:
  assumes "\<not> valid_payload metric_data"
  shows "create_metric_try env self metric_data sent = (Inl ValueError, sent)"
  using assms
  by (auto simp: valid_payload_def create_metric_try_def required_fields_def dict_getitem_def
      list_ex_iff split: option.splits sum.splits)

text \<open>
  Claim C3. A payload that lacks one of \<^verbatim>\<open>repoID\<close>, \<^verbatim>\<open>importID\<close>,
  \<^verbatim>\<open>commitHistScore\<close>, \<^verbatim>\<open>complexityScore\<close>, or whose \<^verbatim>\<open>commitHistScore\<close> or
  \<^verbatim>\<open>complexityScore\<close> is present but not an integer, makes \<^verbatim>\<open>create_metric\<close> return
  \<^verbatim>\<open>None\<close> without sending anything.
\<close>

theorem create_metric_rejects_invalid:
  assumes "map_of metric_data ''repoID'' = None \<or> map_of metric_data ''importID'' = None \<or>
           map_of metric_data ''commitHistScore'' = None \<or> map_of metric_data ''complexityScore'' = None \<or>
           (\<exists>v. map_of metric_data ''commitHistScore'' = Some v \<and> \<not> isinstance_int v) \<or>
           (\<exists>v. map_of metric_data ''complexityScore'' = Some v \<and> \<not> isinstance_int v)"
  shows "create_metric env self metric_data sent = (Inr PNone, sent)"
proof -
  from assms have "\<not> valid_payload metric_data"
    by (auto simp: valid_payload_def required_fields_def)
  then show ?thesis
    by (simp add: create_metric_def create_metric_try_invalid except_Exception_simps)
qed

text \<open>
  Claim C4. For a valid payload \<^verbatim>\<open>create_metric\<close> sends exactly one request, the POST of
  the payload. When the store answers 201 the result is the echoed record: the first
  element when the body is an array, the body itself otherwise. On any other status the
  result is \<^verbatim>\<open>None\<close>.
\<close>

theorem create_metric_writes_once:
  assumes "valid_payload metric_data"
  shows "snd (create_metric env self metric_data sent) = sent @ [http_post self metric_data] \<and>
         (\<forall>resp. env sent (http_post self metric_data) = Inr resp \<longrightarrow>
            (status_code resp = 201 \<longrightarrow>
               (\<forall>x xs. resp_json resp = Inr (PList (x # xs)) \<longrightarrow>
                  fst (create_metric env self metric_data sent) = Inr x) \<and>
               (\<forall>v. resp_json resp = Inr v \<and> \<not> isinstance_list v \<longrightarrow>
                  fst (create_metric env self metric_data sent) = Inr v)) \<and>
            (status_code resp \<noteq> 201 \<longrightarrow>
               fst (create_metric env self metric_data sent) = Inr PNone))"
  using assms
  by (auto simp: create_metric_def create_metric_try_valid except_Exception_def
      split: sum.splits prod.splits if_splits)

theorem create_metric_rejects_invalid_witness:
  "map_of [(''repoID'', PStr ''r1''), (''commitHistScore'', PInt 7), (''complexityScore'', PInt 3)]
     ''importID'' = None \<and>
   create_metric (answering 201 Map.empty (Inr (PList [PDict payload0]))) repo0
     [(''repoID'', PStr ''r1''), (''commitHistScore'', PInt 7), (''complexityScore'', PInt 3)] []
     = (Inr PNone, []) \<and>
   \<not> isinstance_int (PStr ''7'') \<and>
   create_metric (answering 201 Map.empty (Inr (PList [PDict payload0]))) repo0
     [(''repoID'', PStr ''r1''), (''importID'', PStr ''i1''),
      (''commitHistScore'', PStr ''7''), (''complexityScore'', PInt 3)] []
     = (Inr PNone, []) \<and>
   \<not> isinstance_int (PFloat (5 / 2)) \<and>
   create_metric (answering 201 Map.empty (Inr (PList [PDict payload0]))) repo0
     [(''repoID'', PStr ''r1''), (''importID'', PStr ''i1''),
      (''commitHistScore'', PInt 7), (''complexityScore'', PFloat (5 / 2))] []
     = (Inr PNone, [])"
  using
    create_metric_rejects_invalid [of "[(''repoID'', PStr ''r1''), (''commitHistScore'', PInt 7), (''complexityScore'', PInt 3)]"
      "answering 201 Map.empty (Inr (PList [PDict payload0]))" repo0 "[]"]
    create_metric_rejects_invalid [of "[(''repoID'', PStr ''r1''), (''importID'', PStr ''i1''),
      (''commitHistScore'', PStr ''7''), (''complexityScore'', PInt 3)]"
      "answering 201 Map.empty (Inr (PList [PDict payload0]))" repo0 "[]"]
    create_metric_rejects_invalid [of "[(''repoID'', PStr ''r1''), (''importID'', PStr ''i1''),
      (''commitHistScore'', PInt 7), (''complexityScore'', PFloat (5 / 2))]"
      "answering 201 Map.empty (Inr (PList [PDict payload0]))" repo0 "[]"]
  by simp

theorem create_metric_writes_once_witness:
  "valid_payload payload0 \<and>
   create_metric (answering 201 Map.empty (Inr (PList [PDict payload0]))) repo0 payload0 []
     = (Inr (PDict payload0), [http_post repo0 payload0]) \<and>
   create_metric (answering 201 Map.empty (Inr (PDict payload0))) repo0 payload0 []
     = (Inr (PDict payload0), [http_post repo0 payload0]) \<and>
   create_metric (answering 409 Map.empty (Inr (PDict [(''message'', PStr ''duplicate key'')])))
     repo0 payload0 []
     = (Inr PNone, [http_post repo0 payload0])"
proof -
  have v: "valid_payload payload0"
    by (simp add: valid_payload_def payload0_def required_fields_def)
  have a: "fst (create_metric (answering 201 Map.empty (Inr (PList [PDict payload0]))) repo0 payload0 [])
             = Inr (PDict payload0)"
    using create_metric_writes_once [OF v, of "answering 201 Map.empty (Inr (PList [PDict payload0]))" repo0 "[]"]
    by (simp add: answering_def)
  have a': "snd (create_metric (answering 201 Map.empty (Inr (PList [PDict payload0]))) repo0 payload0 [])
             = [http_post repo0 payload0]"
    using create_metric_writes_once [OF v, of "answering 201 Map.empty (Inr (PList [PDict payload0]))" repo0 "[]"]
    by simp
  have b: "fst (create_metric (answering 201 Map.empty (Inr (PDict payload0))) repo0 payload0 [])
             = Inr (PDict payload0)"
    using create_metric_writes_once [OF v, of "answering 201 Map.empty (Inr (PDict payload0))" repo0 "[]"]
    by (simp add: answering_def)
  have b': "snd (create_metric (answering 201 Map.empty (Inr (PDict payload0))) repo0 payload0 [])
             = [http_post repo0 payload0]"
    using create_metric_writes_once [OF v, of "answering 201 Map.empty (Inr (PDict payload0))" repo0 "[]"]
    by simp
  have c: "fst (create_metric (answering 409 Map.empty (Inr (PDict [(''message'', PStr ''duplicate key'')]))) repo0 payload0 [])
             = Inr PNone"
    using create_metric_writes_once [OF v, of "answering 409 Map.empty (Inr (PDict [(''message'', PStr ''duplicate key'')]))" repo0 "[]"]
    by (simp add: answering_def)
  have c': "snd (create_metric (answering 409 Map.empty (Inr (PDict [(''message'', PStr ''duplicate key'')]))) repo0 payload0 [])
             = [http_post repo0 payload0]"
    using create_metric_writes_once [OF v, of "answering 409 Map.empty (Inr (PDict [(''message'', PStr ''duplicate key'')]))" repo0 "[]"]
    by simp
  show ?thesis
    using v a a' b b' c c' by (simp add: prod_eq_iff)
qed


text \<open>
  Claim C9. A payload with the four required fields in which \<^verbatim>\<open>commitHistScore\<close> or
  \<^verbatim>\<open>complexityScore\<close> is \<^verbatim>\<open>True\<close> or \<^verbatim>\<open>False\<close> (the other one an integer or a boolean)
  passes the integer check: the payload is posted, and a 201 answer with the echoed record
  is returned rather than \<^verbatim>\<open>None\<close>.
\<close>

theorem create_metric_accepts_bool:
  assumes "map_of metric_data ''repoID'' \<noteq> None" and "map_of metric_data ''importID'' \<noteq> None"
    and "map_of metric_data ''commitHistScore'' = Some c"
    and "map_of metric_data ''complexityScore'' = Some x"
    and "(c = PBool b \<and> isinstance_int x) \<or> (isinstance_int c \<and> x = PBool b)"
  shows "isinstance_int (PBool b) \<and>
         snd (create_metric env self metric_data sent) = sent @ [http_post self metric_data] \<and>
         (\<forall>resp record. env sent (http_post self metric_data) = Inr resp \<and> status_code resp = 201 \<and>
              resp_json resp = Inr (PList [PDict record]) \<longrightarrow>
            fst (create_metric env self metric_data sent) = Inr (PDict record))"
proof -
  from assms have v: "valid_payload metric_data"
    by (auto simp: valid_payload_def required_fields_def)
  show ?thesis
    by (auto simp: create_metric_def create_metric_try_valid [OF v] except_Exception_def
      split: sum.splits prod.splits if_splits)
qed

theorem create_metric_accepts_bool_witness:
  "map_of [(''repoID'', PStr ''r1''), (''importID'', PStr ''i1''),
           (''commitHistScore'', PBool True), (''complexityScore'', PInt 3)] ''commitHistScore'' = Some (PBool True) \<and>
   create_metric (rest_store []) repo0
     [(''repoID'', PStr ''r1''), (''importID'', PStr ''i1''),
      (''commitHistScore'', PBool True), (''complexityScore'', PInt 3)] [] =
   (Inr (PDict [(''repoID'', PStr ''r1''), (''importID'', PStr ''i1''),
                (''commitHistScore'', PBool True), (''complexityScore'', PInt 3)]),
    [http_post repo0 [(''repoID'', PStr ''r1''), (''importID'', PStr ''i1''),
                      (''commitHistScore'', PBool True), (''complexityScore'', PInt 3)]])"
  using create_metric_accepts_bool [of "[(''repoID'', PStr ''r1''), (''importID'', PStr ''i1''),
      (''commitHistScore'', PBool True), (''complexityScore'', PInt 3)]" "PBool True" "PInt 3" True
      "rest_store []" repo0 "[]"]
  by (simp add: rest_store_def http_post_def prod_eq_iff)


subsection \<open>Point lookup\<close>

lemma keys_params:
  "dict_display [(''repoID'', a), (''importID'', b), (''select'', c)] =
     [(''repoID'', a), (''importID'', b), (''select'', c)]"
  by (simp add: dict_display_def)

text \<open>
  Claim C5. \<^verbatim>\<open>get_metric_by_keys\<close> sends one \<^verbatim>\<open>GET\<close> whose parameters filter by equality on
  \<^verbatim>\<open>repoID\<close> and on \<^verbatim>\<open>importID\<close>. On status 200 it returns the first element of a
  non-empty array and \<^verbatim>\<open>None\<close> for the empty array; it returns \<^verbatim>\<open>None\<close> on another
  status, when the body is not JSON, when the transport raises, and whenever anything else
  in the body of the method raises.
\<close>

theorem get_metric_by_keys_lookup:
  assumes "rq = http_get self [(''repoID'', PStr (''eq.'' @ repo_id)),
                               (''importID'', PStr (''eq.'' @ import_id)),
                               (''select'', PStr ''*'')]"
  shows "snd (get_metric_by_keys env self repo_id import_id sent) = sent @ [rq] \<and>
         (\<forall>resp. env sent rq = Inr resp \<and> status_code resp = 200 \<longrightarrow>
            (\<forall>x xs. resp_json resp = Inr (PList (x # xs)) \<longrightarrow>
               fst (get_metric_by_keys env self repo_id import_id sent) = Inr x) \<and>
            (resp_json resp = Inr (PList []) \<longrightarrow>
               fst (get_metric_by_keys env self repo_id import_id sent) = Inr PNone) \<and>
            (\<forall>e. resp_json resp = Inl e \<longrightarrow>
               fst (get_metric_by_keys env self repo_id import_id sent) = Inr PNone)) \<and>
         (\<forall>resp. env sent rq = Inr resp \<and> status_code resp \<noteq> 200 \<longrightarrow>
            fst (get_metric_by_keys env self repo_id import_id sent) = Inr PNone) \<and>
         (\<forall>e. env sent rq = Inl e \<longrightarrow>
            fst (get_metric_by_keys env self repo_id import_id sent) = Inr PNone) \<and>
         (\<forall>e. fst (get_metric_by_keys_try env self repo_id import_id sent) = Inl e \<longrightarrow>
            fst (get_metric_by_keys env self repo_id import_id sent) = Inr PNone)"
  unfolding assms
  by (auto simp: get_metric_by_keys_def get_metric_by_keys_try_def keys_params requests_send_def Let_def
      except_Exception_def split: sum.splits prod.splits)

theorem get_metric_by_keys_lookup_witness:
  "get_metric_by_keys (rest_store [row ''r1'' ''i1'' 1 2, row ''r1'' ''i2'' 3 4]) repo0 ''r1'' ''i2'' []
     = (Inr (row ''r1'' ''i2'' 3 4),
        [http_get repo0 [(''repoID'', PStr ''eq.r1''), (''importID'', PStr ''eq.i2''),
                         (''select'', PStr ''*'')]]) \<and>
   fst (get_metric_by_keys (rest_store [row ''r1'' ''i1'' 1 2, row ''r1'' ''i2'' 3 4]) repo0 ''r1'' ''i3'' [])
     = Inr PNone \<and>
   fst (get_metric_by_keys (answering 200 Map.empty (Inl JSONDecodeError)) repo0 ''r1'' ''i1'' [])
     = Inr PNone \<and>
   fst (get_metric_by_keys (answering 500 Map.empty (Inr (PList [row ''r1'' ''i1'' 1 2]))) repo0 ''r1'' ''i1'' [])
     = Inr PNone \<and>
   fst (get_metric_by_keys_try offline repo0 ''r1'' ''i1'' []) = Inl RequestException \<and>
   fst (get_metric_by_keys offline repo0 ''r1'' ''i1'' []) = Inr PNone"
proof -
  let ?rq = "\<lambda>r i. http_get repo0 [(''repoID'', PStr (''eq.'' @ r)), (''importID'', PStr (''eq.'' @ i)),
                         (''select'', PStr ''*'')]"
  have st: "rest_store [row ''r1'' ''i1'' 1 2, row ''r1'' ''i2'' 3 4] [] (?rq ''r1'' ''i2'')
              = Inr \<lparr> status_code = 200, resp_headers = Map.empty,
                      resp_json = Inr (PList [row ''r1'' ''i2'' 3 4]) \<rparr>"
    by (simp add: rest_store_def http_get_def page_def posted_def row_matches_def row_def satisfies_def)
  have st': "rest_store [row ''r1'' ''i1'' 1 2, row ''r1'' ''i2'' 3 4] [] (?rq ''r1'' ''i3'')
              = Inr \<lparr> status_code = 200, resp_headers = Map.empty, resp_json = Inr (PList []) \<rparr>"
    by (simp add: rest_store_def http_get_def page_def posted_def row_matches_def row_def satisfies_def)
  have tr: "fst (get_metric_by_keys_try offline repo0 ''r1'' ''i1'' []) = Inl RequestException"
    by (simp add: get_metric_by_keys_try_def requests_send_def offline_def Let_def)
  note th = get_metric_by_keys_lookup [OF refl]
  show ?thesis
    using th [where env = "rest_store [row ''r1'' ''i1'' 1 2, row ''r1'' ''i2'' 3 4]" and sent = "[]" and self = repo0 and repo_id = "''r1''" and import_id = "''i2''"]
      th [where env = "rest_store [row ''r1'' ''i1'' 1 2, row ''r1'' ''i2'' 3 4]" and sent = "[]" and self = repo0 and repo_id = "''r1''" and import_id = "''i3''"]
      th [where env = "answering 200 Map.empty (Inl JSONDecodeError)" and sent = "[]" and self = repo0 and repo_id = "''r1''" and import_id = "''i1''"]
      th [where env = "answering 500 Map.empty (Inr (PList [row ''r1'' ''i1'' 1 2]))" and sent = "[]" and self = repo0 and repo_id = "''r1''" and import_id = "''i1''"]
      th [where env = offline and sent = "[]" and self = repo0 and repo_id = "''r1''" and import_id = "''i1''"]
      st st' tr
    by (simp add: prod_eq_iff answering_def)
qed

subsection \<open>Score ranges\<close>

lemma dict_display3:
  "k \<noteq> ''select'' \<Longrightarrow> score_range_params k lo hi = [(''select'', PStr ''*''), (k, PStr (''lte.'' @ str_int hi))]"
  by (simp add: score_range_params_def dict_display_def)

lemma score_range_ignores_min:
  "get_metrics_by_score_range env self score_field min_score max_score sent =
   get_metrics_by_score_range env self score_field min_score' max_score sent"
  by (auto simp: get_metrics_by_score_range_def get_metrics_by_score_range_try_def dict_display3 valid_score_fields_def Let_def)


lemma str_int_10: "str_int 10 = ''10''"
  by (simp add: str_int_def str_nat.simps digit_char_def)

text \<open>
  Claim C1 fails on the code. The dict display of lines 226 to 230 writes the key
  \<^verbatim>\<open>score_field\<close> twice, so the \<^verbatim>\<open>gte\<close> filter is overwritten by the \<^verbatim>\<open>lte\<close> filter
  and only the upper bound is sent. For the range 5 to 10 of \<^verbatim>\<open>totalScore\<close> the reference
  store returns the row with total 3 as well.
\<close>

theorem score_range_lower_bound_lost:
  "score_range_params ''totalScore'' 5 10 =
     [(''select'', PStr ''*''), (''totalScore'', PStr ''lte.10'')] \<and>
   get_metrics_by_score_range
     (rest_store [row ''r1'' ''i1'' 1 2, row ''r1'' ''i2'' 3 4, row ''r2'' ''i3'' 7 8])
     repo0 ''totalScore'' 5 10 [] =
     (Inr (PList [row ''r1'' ''i1'' 1 2, row ''r1'' ''i2'' 3 4]),
      [http_get repo0 [(''select'', PStr ''*''), (''totalScore'', PStr ''lte.10'')]]) \<and>
   get_metrics_by_score_range env self score_field min_score max_score sent =
     get_metrics_by_score_range env self score_field min_score' max_score sent"
proof -
  have "score_range_params ''totalScore'' 5 10 =
          [(''select'', PStr ''*''), (''totalScore'', PStr ''lte.10'')]"
    by (simp add: dict_display3 str_int_10)
  moreover have "get_metrics_by_score_range
     (rest_store [row ''r1'' ''i1'' 1 2, row ''r1'' ''i2'' 3 4, row ''r2'' ''i3'' 7 8])
     repo0 ''totalScore'' 5 10 [] =
     (Inr (PList [row ''r1'' ''i1'' 1 2, row ''r1'' ''i2'' 3 4]),
      [http_get repo0 [(''select'', PStr ''*''), (''totalScore'', PStr ''lte.10'')]])"
    apply (simp add: Let_def dict_display3 str_int_10 get_metrics_by_score_range_def
        get_metrics_by_score_range_try_def valid_score_fields_def requests_send_def
        json_or_empty_def rest_store_def http_get_def except_Exception_simps page_def
        posted_def row_matches_def row_def satisfies_def)
    apply (simp add: py_int_def last_segment_def py_strip_def py_isspace_def parse_digits_def
        is_digit_def digit_val_def)
    done
  ultimately show ?thesis
    using score_range_ignores_min [of env self score_field min_score max_score sent min_score']
    by simp
qed

text \<open>
  Claim C7. A score field that is none of the five known names makes
  \<^verbatim>\<open>get_metrics_by_score_range\<close> return the empty list without sending anything.
\<close>

theorem get_metrics_by_score_range_invalid_field:
  assumes "score_field \<notin> set valid_score_fields"
  shows "get_metrics_by_score_range env self score_field min_score max_score sent = (Inr (PList []), sent)"
  using assms
  by (simp add: get_metrics_by_score_range_def get_metrics_by_score_range_try_def except_Exception_simps)

theorem get_metrics_by_score_range_invalid_field_witness:
  "''score'' \<notin> set valid_score_fields \<and>
   get_metrics_by_score_range (rest_store [row ''r1'' ''i1'' 1 2]) repo0 ''score'' 0 10 [] = (Inr (PList []), [])"
  using get_metrics_by_score_range_invalid_field [of "''score''" "rest_store [row ''r1'' ''i1'' 1 2]" repo0 0 10 "[]"]
  by (simp add: valid_score_fields_def)


subsection \<open>Averages over well-formed records\<close>

lemma score_ok_cases:
  "score_ok v \<Longrightarrow> v = PNone \<or> (\<exists>i. v = PInt i \<and> \<bar>real_of_int i\<bar> < 2 ^ 1024 - 2 ^ 970)"
  by (cases v) auto

lemma record_ok_field:
  assumes "record_ok m" and "field \<in> set score_fields"
  obtains d where "m = PDict d" and "map_of d field = None \<or> map_of d field = Some PNone \<or>
     (\<exists>i. map_of d field = Some (PInt i) \<and> \<bar>real_of_int i\<bar> < 2 ^ 1024 - 2 ^ 970)"
proof (cases m)
  case (PDict d)
  with assms have "case map_of d field of None \<Rightarrow> True | Some v \<Rightarrow> score_ok v"
    by (simp add: list_all_iff)
  then have "map_of d field = None \<or> map_of d field = Some PNone \<or>
     (\<exists>i. map_of d field = Some (PInt i) \<and> \<bar>real_of_int i\<bar> < 2 ^ 1024 - 2 ^ 970)"
    by (auto split: option.splits dest: score_ok_cases)
  with PDict that show ?thesis by blast
qed (use assms in simp_all)

lemma valid_scores_ok:
  assumes "list_all record_ok ms" and "field \<in> set score_fields"
  shows "valid_scores field ms = Inr (map PInt (non_null_scores field ms))"
  using assms(1)
proof (induction ms)
  case Nil
  show ?case by simp
next
  case (Cons m ms)
  then have m: "record_ok m" and ih: "valid_scores field ms = Inr (map PInt (non_null_scores field ms))"
    by simp_all
  from m assms(2) show ?case
    by (rule record_ok_field) (auto simp: ih dict_getitem_def)
qed

lemma non_null_scores_bound:
  assumes "list_all record_ok ms" and "field \<in> set score_fields"
  shows "\<forall>i \<in> set (non_null_scores field ms). \<bar>real_of_int i\<bar> < 2 ^ 1024 - 2 ^ 970"
  using assms(1)
proof (induction ms)
  case Nil
  show ?case by simp
next
  case (Cons m ms)
  then have m: "record_ok m"
    and ih: "\<forall>i \<in> set (non_null_scores field ms). \<bar>real_of_int i\<bar> < 2 ^ 1024 - 2 ^ 970"
    by simp_all
  from m assms(2) show ?case
    by (rule record_ok_field) (use ih in auto)
qed

lemma sum_from_ints: "sum_from (NInt a) (map PInt xs) = Inr (NInt (a + sum_list xs))"
  by (induction xs arbitrary: a) (simp_all add: add.assoc)

lemma abs_sum_list_less:
  fixes T :: real
  assumes "\<forall>i \<in> set xs. \<bar>real_of_int i\<bar> < T" and "xs \<noteq> []"
  shows "\<bar>real_of_int (sum_list xs)\<bar> < real (length xs) * T"
  using assms
proof (induction xs)
  case Nil
  then show ?case by simp
next
  case (Cons x xs)
  show ?case
  proof (cases "xs = []")
    case True
    with Cons.prems show ?thesis by simp
  next
    case False
    with Cons have "\<bar>real_of_int (sum_list xs)\<bar> < real (length xs) * T" by simp
    moreover from Cons.prems have "\<bar>real_of_int x\<bar> < T" by simp
    ultimately show ?thesis by (simp add: algebra_simps)
  qed
qed

lemma mean_in_range:
  fixes T :: real
  assumes "\<forall>i \<in> set xs. \<bar>real_of_int i\<bar> < T" and "xs \<noteq> []"
  shows "\<bar>real_of_int (sum_list xs) / real (length xs)\<bar> < T"
proof -
  have n: "0 < real (length xs)" using assms(2) by simp
  have "\<bar>real_of_int (sum_list xs)\<bar> < real (length xs) * T"
    by (rule abs_sum_list_less [OF assms])
  then have "\<bar>real_of_int (sum_list xs)\<bar> / real (length xs) < T"
    using n by (simp add: pos_divide_less_eq mult.commute)
  then show ?thesis by simp
qed

lemma average_of_ok:
  assumes "list_all record_ok ms" and "field \<in> set score_fields"
  shows "average_of field (PList ms) = Inr (mean_of (non_null_scores field ms))"
proof (cases "non_null_scores field ms = []")
  case True
  then show ?thesis
    by (simp add: average_of_def valid_scores_ok [OF assms] mean_of_def)
next
  case False
  have "\<bar>real_of_int (sum_list (non_null_scores field ms)) / real (length (non_null_scores field ms))\<bar>
          < 2 ^ 1024 - 2 ^ 970"
    by (rule mean_in_range [OF non_null_scores_bound [OF assms] False])
  with False show ?thesis
    by (simp add: average_of_def valid_scores_ok [OF assms] mean_of_def py_sum_def sum_from_ints
        truediv_def)
qed

lemma average_scores_loop_ok:
  assumes "list_all record_ok ms"
  shows "average_scores_loop score_fields (PList ms) [] = Inr (expected_averages ms)"
proof -
  have a: "\<And>field. field \<in> set score_fields \<Longrightarrow>
             average_of field (PList ms) = Inr (mean_of (non_null_scores field ms))"
    by (rule average_of_ok [OF assms])
  have "average_of ''commitHistScore'' (PList ms) = Inr (mean_of (non_null_scores ''commitHistScore'' ms))"
    "average_of ''complexityScore'' (PList ms) = Inr (mean_of (non_null_scores ''complexityScore'' ms))"
    "average_of ''churnScore'' (PList ms) = Inr (mean_of (non_null_scores ''churnScore'' ms))"
    "average_of ''totalScore'' (PList ms) = Inr (mean_of (non_null_scores ''totalScore'' ms))"
    "average_of ''packageVersionScore'' (PList ms) = Inr (mean_of (non_null_scores ''packageVersionScore'' ms))"
    by (rule a, simp add: score_fields_def)+
  then show ?thesis
    by (simp add: score_fields_def expected_averages_def)
qed


subsection \<open>The table-wide summary\<close>

lemma count_params_eq:
  "count_params = [(''select'', PStr ''count''), (''count'', PStr ''exact'')]"
  by (simp add: count_params_def dict_display_def)

lemma get_all_metrics_eq:
  "get_all_metrics env self limit offset sent =
     (case env sent (http_get self [(''select'', PStr ''*''), (''limit'', PInt limit), (''offset'', PInt offset)]) of
        Inl e \<Rightarrow> Inr (PList [])
      | Inr resp \<Rightarrow>
          (if status_code resp = 200
           then (case resp_json resp of Inl e \<Rightarrow> Inr (PList []) | Inr v \<Rightarrow> Inr v)
           else Inr (PList [])),
      sent @ [http_get self [(''select'', PStr ''*''), (''limit'', PInt limit), (''offset'', PInt offset)]])"
  by (simp add: get_all_metrics_def get_all_metrics_try_def dict_display_def Let_def
      json_or_empty_def requests_send_def except_Exception_def split: sum.splits)

lemma get_metrics_by_repo_eq:
  "get_metrics_by_repo env self repo_id limit offset sent =
     (case env sent (http_get self [(''repoID'', PStr (''eq.'' @ repo_id)), (''select'', PStr ''*''),
                                    (''limit'', PInt limit), (''offset'', PInt offset)]) of
        Inl e \<Rightarrow> Inr (PList [])
      | Inr resp \<Rightarrow>
          (if status_code resp = 200
           then (case resp_json resp of Inl e \<Rightarrow> Inr (PList []) | Inr v \<Rightarrow> Inr v)
           else Inr (PList [])),
      sent @ [http_get self [(''repoID'', PStr (''eq.'' @ repo_id)), (''select'', PStr ''*''),
                             (''limit'', PInt limit), (''offset'', PInt offset)]])"
  by (simp add: get_metrics_by_repo_def get_metrics_by_repo_try_def dict_display_def Let_def
      json_or_empty_def requests_send_def except_Exception_def split: sum.splits)

lemma summary_eq:
  "summary n avg = PDict [(''total_count'', PInt n), (''average_scores'', PDict avg)]"
  by (simp add: summary_def dict_display_def)

lemma repo_summary_eq:
  "repo_summary r n avg =
     PDict [(''repo_id'', PStr r), (''metric_count'', PInt n), (''average_scores'', PDict avg)]"
  by (simp add: repo_summary_def dict_display_def)

lemma get_metrics_summary_of_records:
  assumes "env sent (http_get self count_params) = Inr count_response"
    and "total_count_of count_response = Inr total_count"
    and "fst (get_all_metrics env self 1000 0 (sent @ [http_get self count_params])) = Inr (PList ms)"
    and "list_all record_ok ms"
  shows "get_metrics_summary env self sent =
           (Inr (summary total_count (if ms = [] then [] else expected_averages ms)),
            sent @ [http_get self count_params,
                    http_get self [(''select'', PStr ''*''), (''limit'', PInt 1000), (''offset'', PInt 0)]])"
proof -
  have s: "snd (get_all_metrics env self 1000 0 (sent @ [http_get self count_params])) =
             sent @ [http_get self count_params,
                     http_get self [(''select'', PStr ''*''), (''limit'', PInt 1000), (''offset'', PInt 0)]]"
    by (simp add: get_all_metrics_eq)
  with assms(3) have g: "get_all_metrics env self 1000 0 (sent @ [http_get self count_params]) =
      (Inr (PList ms), sent @ [http_get self count_params,
                     http_get self [(''select'', PStr ''*''), (''limit'', PInt 1000), (''offset'', PInt 0)]])"
    by (simp add: prod_eq_iff)
  show ?thesis
    by (simp add: get_metrics_summary_def get_metrics_summary_try_def requests_send_def assms(1,2)
        default_offset_def g average_scores_loop_ok [OF assms(4)] except_Exception_simps)
qed

text \<open>
  Claim C6. When the count request is answered and its total is read as \<open>total_count\<close>,
  and the fetch of up to 1000 records (\<^verbatim>\<open>get_all_metrics(limit=1000)\<close>) yields the
  well-formed records \<open>ms\<close>, \<^verbatim>\<open>get_metrics_summary\<close> returns \<^verbatim>\<open>total_count\<close> and
  \<^verbatim>\<open>average_scores\<close>, which maps \<^verbatim>\<open>avg_<field>\<close>, for each of the five score fields, to the
  arithmetic mean of the non-null values of the field across \<open>ms\<close>, and to \<^verbatim>\<open>None\<close> when
  the field has no non-null value; \<^verbatim>\<open>average_scores\<close> is empty when no record was fetched.
\<close>

theorem get_metrics_summary_averages:
  assumes "env sent (http_get self count_params) = Inr count_response"
    and "total_count_of count_response = Inr total_count"
    and "fst (get_all_metrics env self 1000 0 (sent @ [http_get self count_params])) = Inr (PList ms)"
    and "list_all record_ok ms"
  shows "get_metrics_summary env self sent =
           (Inr (PDict [(''total_count'', PInt total_count),
                        (''average_scores'',
                         PDict (if ms = [] then []
                                else map (\<lambda>field. (''avg_'' @ field, mean_of (non_null_scores field ms)))
                                       score_fields))]),
            sent @ [http_get self [(''select'', PStr ''count''), (''count'', PStr ''exact'')],
                    http_get self [(''select'', PStr ''*''), (''limit'', PInt 1000), (''offset'', PInt 0)]])"
  using get_metrics_summary_of_records [OF assms]
  by (simp add: summary_eq count_params_eq expected_averages_def)

lemma py_int_2: "py_int (last_segment ''0-1/2'') = Inr 2"
  by (simp add: py_int_def last_segment_def py_strip_def py_isspace_def parse_digits_def
      is_digit_def digit_val_def)

lemma py_int_0: "py_int (last_segment ''*/0'') = Inr 0"
  by (simp add: py_int_def last_segment_def py_strip_def py_isspace_def parse_digits_def
      is_digit_def digit_val_def)

lemma rows2_ok: "list_all record_ok rows2"
  by (simp add: rows2_def row_def score_fields_def)

lemma expected_averages_rows2:
  "expected_averages rows2 =
     [(''avg_commitHistScore'', PFloat (3 / 2)), (''avg_complexityScore'', PFloat 5),
      (''avg_churnScore'', PNone), (''avg_totalScore'', PFloat (13 / 2)),
      (''avg_packageVersionScore'', PNone)]"
  by (simp add: expected_averages_def score_fields_def rows2_def row_def mean_of_def)

lemma rest_store_all:
  "sent \<noteq> [] \<Longrightarrow> posted sent = [] \<Longrightarrow>
   first_then r (rest_store rows) sent
     (http_get self [(''select'', PStr ''*''), (''limit'', PInt 1000), (''offset'', PInt 0)]) =
   Inr \<lparr> status_code = 200, resp_headers = Map.empty, resp_json = Inr (PList (take 1000 rows)) \<rparr>"
  by (simp add: first_then_def rest_store_def http_get_def page_def row_matches_def)

theorem get_metrics_summary_averages_witness:
  "list_all record_ok rows2 \<and>
   get_metrics_summary (first_then (counted ''0-1/2'') (rest_store rows2)) repo0 [] =
     (Inr (PDict [(''total_count'', PInt 2),
                  (''average_scores'',
                   PDict [(''avg_commitHistScore'', PFloat (3 / 2)),
                          (''avg_complexityScore'', PFloat 5),
                          (''avg_churnScore'', PNone),
                          (''avg_totalScore'', PFloat (13 / 2)),
                          (''avg_packageVersionScore'', PNone)])]),
      [http_get repo0 [(''select'', PStr ''count''), (''count'', PStr ''exact'')],
       http_get repo0 [(''select'', PStr ''*''), (''limit'', PInt 1000), (''offset'', PInt 0)]]) \<and>
   fst (get_metrics_summary (first_then (counted ''*/0'') (rest_store [])) repo0 []) =
     Inr (PDict [(''total_count'', PInt 0), (''average_scores'', PDict [])])"
proof -
  let ?cr2 = "\<lparr> status_code = 200, resp_headers = [''content-range'' \<mapsto> ''0-1/2''],
           resp_json = Inr (PList [PDict [(''count'', PInt 0)]]) \<rparr>"
  let ?cr0 = "\<lparr> status_code = 200, resp_headers = [''content-range'' \<mapsto> ''*/0''],
           resp_json = Inr (PList [PDict [(''count'', PInt 0)]]) \<rparr>"
  have c2: "first_then (counted ''0-1/2'') (rest_store rows2) [] (http_get repo0 count_params) = Inr ?cr2"
    by (simp add: first_then_def counted_def)
  have c0: "first_then (counted ''*/0'') (rest_store []) [] (http_get repo0 count_params) = Inr ?cr0"
    by (simp add: first_then_def counted_def)
  have t2: "total_count_of ?cr2 = Inr 2"
    by (simp add: total_count_of_def py_int_2)
  have t0: "total_count_of ?cr0 = Inr 0"
    by (simp add: total_count_of_def py_int_0)
  have p: "posted [http_get repo0 count_params] = []"
    by (simp add: posted_def http_get_def)
  have f: "fst (get_all_metrics (first_then r (rest_store rows)) repo0 1000 0 [http_get repo0 count_params])
             = Inr (PList (take 1000 rows))" for r rows
    using rest_store_all [of "[http_get repo0 count_params]" r rows repo0] p
    by (simp add: get_all_metrics_eq)
  have f2: "fst (get_all_metrics (first_then (counted ''0-1/2'') (rest_store rows2)) repo0 1000 0
                  ([] @ [http_get repo0 count_params])) = Inr (PList rows2)"
    using f [of "counted ''0-1/2''" rows2] by (simp add: rows2_def)
  have f0: "fst (get_all_metrics (first_then (counted ''*/0'') (rest_store [])) repo0 1000 0
                  ([] @ [http_get repo0 count_params])) = Inr (PList [])"
    using f [of "counted ''*/0''" "[]"] by simp
  have e: "rows2 \<noteq> []" by (simp add: rows2_def)
  show ?thesis
    using get_metrics_summary_averages [OF c2 t2 f2 rows2_ok]
      get_metrics_summary_averages [OF c0 t0 f0]
      rows2_ok e expected_averages_rows2
    by (simp add: expected_averages_def)
qed


text \<open>
  Claim C10. When the count request is answered with a status other than 200, or without
  a \<^verbatim>\<open>content-range\<close> header, while the fetch answers 200 with a non-empty list of
  well-formed records, \<^verbatim>\<open>get_metrics_summary\<close> still returns \<^verbatim>\<open>total_count = 0\<close> together
  with an \<^verbatim>\<open>average_scores\<close> that has all five keys.
\<close>

theorem count_failure_keeps_averages:
  assumes "env sent (http_get self [(''select'', PStr ''count''), (''count'', PStr ''exact'')])
             = Inr count_response"
    and "status_code count_response \<noteq> 200 \<or> resp_headers count_response ''content-range'' = None"
    and "env (sent @ [http_get self [(''select'', PStr ''count''), (''count'', PStr ''exact'')]])
             (http_get self [(''select'', PStr ''*''), (''limit'', PInt 1000), (''offset'', PInt 0)])
             = Inr resp"
    and "status_code resp = 200" and "resp_json resp = Inr (PList ms)"
    and "ms \<noteq> []" and "list_all record_ok ms"
  shows "fst (get_metrics_summary env self sent) =
           Inr (PDict [(''total_count'', PInt 0),
                       (''average_scores'',
                        PDict (map (\<lambda>field. (''avg_'' @ field, mean_of (non_null_scores field ms)))
                                 score_fields))]) \<and>
         map fst (map (\<lambda>field. (''avg_'' @ field, mean_of (non_null_scores field ms))) score_fields) =
           [''avg_commitHistScore'', ''avg_complexityScore'', ''avg_churnScore'', ''avg_totalScore'',
            ''avg_packageVersionScore'']"
proof -
  have c: "env sent (http_get self count_params) = Inr count_response"
    using assms(1) by (simp add: count_params_eq)
  have t: "total_count_of count_response = Inr 0"
    using assms(2) by (auto simp: total_count_of_def)
  have f: "fst (get_all_metrics env self 1000 0 (sent @ [http_get self count_params])) = Inr (PList ms)"
    using assms(3,4,5) by (simp add: get_all_metrics_eq count_params_eq)
  show ?thesis
    using get_metrics_summary_of_records [OF c t f assms(7)] assms(6)
    by (simp add: summary_eq expected_averages_def score_fields_def)
qed

theorem count_failure_keeps_averages_witness:
  "fst (get_metrics_summary
          (first_then (Inr \<lparr> status_code = 500, resp_headers = Map.empty,
                              resp_json = Inl JSONDecodeError \<rparr>) (rest_store rows2)) repo0 []) =
     Inr (PDict [(''total_count'', PInt 0),
                 (''average_scores'',
                  PDict [(''avg_commitHistScore'', PFloat (3 / 2)),
                         (''avg_complexityScore'', PFloat 5),
                         (''avg_churnScore'', PNone),
                         (''avg_totalScore'', PFloat (13 / 2)),
                         (''avg_packageVersionScore'', PNone)])]) \<and>
   fst (get_metrics_summary
          (first_then (Inr \<lparr> status_code = 200, resp_headers = Map.empty,
                              resp_json = Inr (PList []) \<rparr>) (rest_store rows2)) repo0 []) =
     Inr (PDict [(''total_count'', PInt 0),
                 (''average_scores'',
                  PDict [(''avg_commitHistScore'', PFloat (3 / 2)),
                         (''avg_complexityScore'', PFloat 5),
                         (''avg_churnScore'', PNone),
                         (''avg_totalScore'', PFloat (13 / 2)),
                         (''avg_packageVersionScore'', PNone)])])"
proof -
  let ?count = "http_get repo0 [(''select'', PStr ''count''), (''count'', PStr ''exact'')]"
  let ?fetch = "http_get repo0 [(''select'', PStr ''*''), (''limit'', PInt 1000), (''offset'', PInt 0)]"
  let ?r500 = "\<lparr> status_code = 500, resp_headers = Map.empty, resp_json = Inl JSONDecodeError \<rparr>"
  let ?r200 = "\<lparr> status_code = 200, resp_headers = Map.empty, resp_json = Inr (PList []) \<rparr>"
  let ?rows = "\<lparr> status_code = 200, resp_headers = Map.empty, resp_json = Inr (PList rows2) \<rparr>"
  have c: "first_then (Inr r) (rest_store rows2) [] ?count = Inr r" for r
    by (simp add: first_then_def)
  have p: "posted ([] @ [?count]) = []"
    by (simp add: posted_def http_get_def)
  have f: "first_then r (rest_store rows2) ([] @ [?count]) ?fetch = Inr ?rows" for r
    using rest_store_all [of "[] @ [?count]" r rows2 repo0] p by (simp add: rows2_def)
  have e: "rows2 \<noteq> []" by (simp add: rows2_def)
  have s5: "status_code ?r500 \<noteq> 200 \<or> resp_headers ?r500 ''content-range'' = None" by simp
  have s2: "status_code ?r200 \<noteq> 200 \<or> resp_headers ?r200 ''content-range'' = None" by simp
  have ok: "status_code ?rows = 200" "resp_json ?rows = Inr (PList rows2)" by simp_all
  show ?thesis
    using count_failure_keeps_averages [OF c s5 f ok e rows2_ok]
      count_failure_keeps_averages [OF c s2 f ok e rows2_ok]
      expected_averages_rows2
    by (simp add: expected_averages_def)
qed


subsection \<open>The summary of one repository\<close>

lemma get_repo_metrics_summary_of_records:
  assumes "fst (get_metrics_by_repo env self repo_id 100 0 sent) = Inr (PList ms)"
    and "list_all record_ok ms"
  shows "get_repo_metrics_summary env self repo_id sent =
           (Inr (if ms = [] then repo_summary repo_id 0 []
                 else repo_summary repo_id (int (length ms)) (expected_averages ms)),
            sent @ [http_get self [(''repoID'', PStr (''eq.'' @ repo_id)), (''select'', PStr ''*''),
                                   (''limit'', PInt 100), (''offset'', PInt 0)]])"
proof -
  have "snd (get_metrics_by_repo env self repo_id 100 0 sent) =
          sent @ [http_get self [(''repoID'', PStr (''eq.'' @ repo_id)), (''select'', PStr ''*''),
                                 (''limit'', PInt 100), (''offset'', PInt 0)]]"
    by (simp add: get_metrics_by_repo_eq)
  with assms(1) have g: "get_metrics_by_repo env self repo_id 100 0 sent =
      (Inr (PList ms), sent @ [http_get self [(''repoID'', PStr (''eq.'' @ repo_id)),
         (''select'', PStr ''*''), (''limit'', PInt 100), (''offset'', PInt 0)]])"
    by (simp add: prod_eq_iff)
  show ?thesis
    by (simp add: get_repo_metrics_summary_def get_repo_metrics_summary_try_def default_limit_def
        default_offset_def g average_scores_loop_ok [OF assms(2)] except_Exception_simps)
qed

text \<open>
  Claim C2, as amended. \<^verbatim>\<open>get_repo_metrics_summary\<close> fetches the records of the repository
  with one call of \<^verbatim>\<open>get_metrics_by_repo\<close> under its defaults, so the request carries
  \<^verbatim>\<open>limit=100\<close> and \<^verbatim>\<open>offset=0\<close>; for well-formed fetched records \<open>ms\<close>,
  \<^verbatim>\<open>metric_count\<close> is the number of fetched records and the averages are taken over them.
\<close>

theorem repo_summary_over_fetched_page:
  assumes "fst (get_metrics_by_repo env self repo_id 100 0 sent) = Inr (PList ms)"
    and "list_all record_ok ms"
  shows "get_repo_metrics_summary env self repo_id sent =
           (Inr (PDict [(''repo_id'', PStr repo_id),
                        (''metric_count'', PInt (int (length ms))),
                        (''average_scores'',
                         PDict (if ms = [] then []
                                else map (\<lambda>field. (''avg_'' @ field, mean_of (non_null_scores field ms)))
                                       score_fields))]),
            sent @ [http_get self [(''repoID'', PStr (''eq.'' @ repo_id)), (''select'', PStr ''*''),
                                   (''limit'', PInt 100), (''offset'', PInt 0)]])"
  using get_repo_metrics_summary_of_records [OF assms]
  by (simp add: repo_summary_eq expected_averages_def)

theorem repo_summary_over_fetched_page_witness:
  "list_all record_ok rows2 \<and>
   get_repo_metrics_summary (rest_store (rows2 @ [row ''r2'' ''i3'' 9 9])) repo0 ''r1'' [] =
     (Inr (PDict [(''repo_id'', PStr ''r1''),
                  (''metric_count'', PInt 2),
                  (''average_scores'',
                   PDict [(''avg_commitHistScore'', PFloat (3 / 2)),
                          (''avg_complexityScore'', PFloat 5),
                          (''avg_churnScore'', PNone),
                          (''avg_totalScore'', PFloat (13 / 2)),
                          (''avg_packageVersionScore'', PNone)])]),
      [http_get repo0 [(''repoID'', PStr ''eq.r1''), (''select'', PStr ''*''),
                       (''limit'', PInt 100), (''offset'', PInt 0)]])"
proof -
  have g: "fst (get_metrics_by_repo (rest_store (rows2 @ [row ''r2'' ''i3'' 9 9])) repo0 ''r1'' 100 0 [])
             = Inr (PList rows2)"
    by (simp add: get_metrics_by_repo_eq rest_store_def http_get_def page_def posted_def
        row_matches_def rows2_def row_def satisfies_def)
  have e: "rows2 \<noteq> []" "length rows2 = 2" by (simp_all add: rows2_def)
  show ?thesis
    using repo_summary_over_fetched_page [OF g rows2_ok] rows2_ok e expected_averages_rows2
    by (simp add: expected_averages_def)
qed

lemma row_matches_repo:
  "row_matches [(''repoID'', PStr ''eq.r1''), (''select'', PStr ''*''), (''limit'', PInt l),
                (''offset'', PInt 0)] (row ''r1'' i c x)"
  by (simp add: row_matches_def row_def satisfies_def)

lemma many_rows_page:
  "rest_store (many_rows 101) []
     (http_get self [(''repoID'', PStr ''eq.r1''), (''select'', PStr ''*''), (''limit'', PInt 100),
                     (''offset'', PInt 0)]) =
   Inr \<lparr> status_code = 200, resp_headers = Map.empty, resp_json = Inr (PList (many_rows 100)) \<rparr>"
proof -
  have "filter (row_matches [(''repoID'', PStr ''eq.r1''), (''select'', PStr ''*''),
                             (''limit'', PInt 100), (''offset'', PInt 0)]) (many_rows 101)
          = many_rows 101"
    by (simp add: many_rows_def filter_map o_def row_matches_repo)
  moreover have "take 100 (many_rows 101) = many_rows 100"
    by (simp add: many_rows_def take_map)
  ultimately show ?thesis
    by (simp add: rest_store_def http_get_def page_def posted_def)
qed

lemma many_rows_ok: "list_all record_ok (many_rows n)"
  by (simp add: many_rows_def list_all_iff row_def score_fields_def)

lemma non_null_scores_many_rows:
  "non_null_scores ''commitHistScore'' (map (\<lambda>k. row r (f k) c x) ks) = replicate (length ks) c"
  "non_null_scores ''complexityScore'' (map (\<lambda>k. row r (f k) c x) ks) = replicate (length ks) x"
  "non_null_scores ''churnScore'' (map (\<lambda>k. row r (f k) c x) ks) = []"
  "non_null_scores ''totalScore'' (map (\<lambda>k. row r (f k) c x) ks) = replicate (length ks) (c + x)"
  "non_null_scores ''packageVersionScore'' (map (\<lambda>k. row r (f k) c x) ks) = []"
  by (induction ks) (simp_all add: row_def)

lemma mean_of_replicate: "0 < n \<Longrightarrow> mean_of (replicate n c) = PFloat (real_of_int c)"
  by (simp add: mean_of_def sum_list_replicate)

lemma rows_of_repo_many: "rows_of_repo ''r1'' (many_rows n) = many_rows n"
  by (simp add: rows_of_repo_def many_rows_def filter_map o_def row_def)

text \<open>
  Claim C2 as stated fails: against a store that holds 101 records of the repository and
  honours \<^verbatim>\<open>limit\<close>, \<^verbatim>\<open>metric_count\<close> is 100.
\<close>

theorem repo_summary_capped_counterexample:
  "length (rows_of_repo ''r1'' (many_rows 101)) = 101 \<and>
   get_repo_metrics_summary (rest_store (many_rows 101)) repo0 ''r1'' [] =
     (Inr (PDict [(''repo_id'', PStr ''r1''),
                  (''metric_count'', PInt 100),
                  (''average_scores'',
                   PDict [(''avg_commitHistScore'', PFloat 7),
                          (''avg_complexityScore'', PFloat 3),
                          (''avg_churnScore'', PNone),
                          (''avg_totalScore'', PFloat 10),
                          (''avg_packageVersionScore'', PNone)])]),
      [http_get repo0 [(''repoID'', PStr ''eq.r1''), (''select'', PStr ''*''),
                       (''limit'', PInt 100), (''offset'', PInt 0)]])"
proof -
  have l: "length (many_rows n) = n" for n
    by (simp add: many_rows_def)
  have g: "fst (get_metrics_by_repo (rest_store (many_rows 101)) repo0 ''r1'' 100 0 []) =
             Inr (PList (many_rows 100))"
    by (simp add: get_metrics_by_repo_eq many_rows_page)
  have ne: "many_rows 100 \<noteq> []"
    using l [of 100] by auto
  have a: "expected_averages (many_rows 100) =
             [(''avg_commitHistScore'', PFloat 7), (''avg_complexityScore'', PFloat 3),
              (''avg_churnScore'', PNone), (''avg_totalScore'', PFloat 10),
              (''avg_packageVersionScore'', PNone)]"
    by (simp add: expected_averages_def score_fields_def many_rows_def non_null_scores_many_rows
        mean_of_replicate) (simp add: mean_of_def)
  show ?thesis
    using get_repo_metrics_summary_of_records [OF g many_rows_ok] ne
    by (simp add: rows_of_repo_many l a repo_summary_eq)
qed


subsection \<open>Exceptions\<close>

lemma py_int_5: "py_int (last_segment ''0-4/5'') = Inr 5"
  by (simp add: py_int_def last_segment_def py_strip_def py_isspace_def parse_digits_def
      is_digit_def digit_val_def)

lemma except_Exception_returns: "\<not> isl (fst (except_Exception body dflt))"
  by (cases body) (auto simp: except_Exception_def split: sum.splits)

lemma except_Exception_absorbs: "isl (fst body) \<Longrightarrow> fst (except_Exception body dflt) = Inr dflt"
  by (cases body) (auto simp: except_Exception_def split: sum.splits)

text \<open>
  Claim C8, as amended. No method propagates an exception: each of the eight methods
  returns a value for every input and every behaviour of the store, and whenever the body
  of a method raises, the method returns its empty shape: \<^verbatim>\<open>None\<close> for \<^verbatim>\<open>create_metric\<close>
  and \<^verbatim>\<open>get_metric_by_keys\<close>, the empty list for the list methods, the zeroed summary for
  the two summaries. A failure of the fetch inside \<^verbatim>\<open>get_metrics_summary\<close> does not reach
  the body: the nested \<^verbatim>\<open>get_all_metrics\<close> turns it into the empty list, and the summary
  keeps the total read from the count response, with empty averages.
\<close>

theorem no_exception_propagates:
  "\<not> isl (fst (create_metric env self metric_data sent)) \<and>
   (isl (fst (create_metric_try env self metric_data sent)) \<longrightarrow>
      fst (create_metric env self metric_data sent) = Inr PNone) \<and>
   \<not> isl (fst (get_metric_by_keys env self repo_id import_id sent)) \<and>
   (isl (fst (get_metric_by_keys_try env self repo_id import_id sent)) \<longrightarrow>
      fst (get_metric_by_keys env self repo_id import_id sent) = Inr PNone) \<and>
   \<not> isl (fst (get_metrics_by_repo env self repo_id limit offset sent)) \<and>
   (isl (fst (get_metrics_by_repo_try env self repo_id limit offset sent)) \<longrightarrow>
      fst (get_metrics_by_repo env self repo_id limit offset sent) = Inr (PList [])) \<and>
   \<not> isl (fst (get_metrics_by_import env self import_id limit offset sent)) \<and>
   (isl (fst (get_metrics_by_import_try env self import_id limit offset sent)) \<longrightarrow>
      fst (get_metrics_by_import env self import_id limit offset sent) = Inr (PList [])) \<and>
   \<not> isl (fst (get_all_metrics env self limit offset sent)) \<and>
   (isl (fst (get_all_metrics_try env self limit offset sent)) \<longrightarrow>
      fst (get_all_metrics env self limit offset sent) = Inr (PList [])) \<and>
   \<not> isl (fst (get_metrics_by_score_range env self score_field min_score max_score sent)) \<and>
   (isl (fst (get_metrics_by_score_range_try env self score_field min_score max_score sent)) \<longrightarrow>
      fst (get_metrics_by_score_range env self score_field min_score max_score sent) = Inr (PList [])) \<and>
   \<not> isl (fst (get_metrics_summary env self sent)) \<and>
   (isl (fst (get_metrics_summary_try env self sent)) \<longrightarrow>
      fst (get_metrics_summary env self sent) =
        Inr (PDict [(''total_count'', PInt 0), (''average_scores'', PDict [])])) \<and>
   \<not> isl (fst (get_repo_metrics_summary env self repo_id sent)) \<and>
   (isl (fst (get_repo_metrics_summary_try env self repo_id sent)) \<longrightarrow>
      fst (get_repo_metrics_summary env self repo_id sent) =
        Inr (PDict [(''repo_id'', PStr repo_id), (''metric_count'', PInt 0),
                    (''average_scores'', PDict [])])) \<and>
   (env sent (http_get self [(''select'', PStr ''count''), (''count'', PStr ''exact'')])
      = Inr count_response \<and>
    total_count_of count_response = Inr total_count \<and>
    isl (env (sent @ [http_get self [(''select'', PStr ''count''), (''count'', PStr ''exact'')]])
           (http_get self [(''select'', PStr ''*''), (''limit'', PInt 1000), (''offset'', PInt 0)])) \<longrightarrow>
      fst (get_metrics_summary env self sent) =
        Inr (PDict [(''total_count'', PInt total_count), (''average_scores'', PDict [])]))"
proof -
  have 1: "\<not> isl (fst (create_metric env self metric_data sent))"
    "isl (fst (create_metric_try env self metric_data sent)) \<longrightarrow>
      fst (create_metric env self metric_data sent) = Inr PNone"
    by (simp_all add: create_metric_def except_Exception_returns except_Exception_absorbs)
  have 2: "\<not> isl (fst (get_metric_by_keys env self repo_id import_id sent))"
    "isl (fst (get_metric_by_keys_try env self repo_id import_id sent)) \<longrightarrow>
      fst (get_metric_by_keys env self repo_id import_id sent) = Inr PNone"
    by (simp_all add: get_metric_by_keys_def except_Exception_returns except_Exception_absorbs)
  have 3: "\<not> isl (fst (get_metrics_by_repo env self repo_id limit offset sent))"
    "isl (fst (get_metrics_by_repo_try env self repo_id limit offset sent)) \<longrightarrow>
      fst (get_metrics_by_repo env self repo_id limit offset sent) = Inr (PList [])"
    by (simp_all add: get_metrics_by_repo_def except_Exception_returns except_Exception_absorbs)
  have 4: "\<not> isl (fst (get_metrics_by_import env self import_id limit offset sent))"
    "isl (fst (get_metrics_by_import_try env self import_id limit offset sent)) \<longrightarrow>
      fst (get_metrics_by_import env self import_id limit offset sent) = Inr (PList [])"
    by (simp_all add: get_metrics_by_import_def except_Exception_returns except_Exception_absorbs)
  have 5: "\<not> isl (fst (get_all_metrics env self limit offset sent))"
    "isl (fst (get_all_metrics_try env self limit offset sent)) \<longrightarrow>
      fst (get_all_metrics env self limit offset sent) = Inr (PList [])"
    by (simp_all add: get_all_metrics_def except_Exception_returns except_Exception_absorbs)
  have 6: "\<not> isl (fst (get_metrics_by_score_range env self score_field min_score max_score sent))"
    "isl (fst (get_metrics_by_score_range_try env self score_field min_score max_score sent)) \<longrightarrow>
      fst (get_metrics_by_score_range env self score_field min_score max_score sent) = Inr (PList [])"
    by (simp_all add: get_metrics_by_score_range_def except_Exception_returns except_Exception_absorbs)
  have 7: "\<not> isl (fst (get_metrics_summary env self sent))"
    "isl (fst (get_metrics_summary_try env self sent)) \<longrightarrow>
      fst (get_metrics_summary env self sent) =
        Inr (PDict [(''total_count'', PInt 0), (''average_scores'', PDict [])])"
    by (simp_all add: get_metrics_summary_def except_Exception_returns except_Exception_absorbs
        summary_eq)
  have 8: "\<not> isl (fst (get_repo_metrics_summary env self repo_id sent))"
    "isl (fst (get_repo_metrics_summary_try env self repo_id sent)) \<longrightarrow>
      fst (get_repo_metrics_summary env self repo_id sent) =
        Inr (PDict [(''repo_id'', PStr repo_id), (''metric_count'', PInt 0),
                    (''average_scores'', PDict [])])"
    by (simp_all add: get_repo_metrics_summary_def except_Exception_returns except_Exception_absorbs
        repo_summary_eq)
  have 9: "fst (get_metrics_summary env self sent) =
        Inr (PDict [(''total_count'', PInt total_count), (''average_scores'', PDict [])])"
    if c: "env sent (http_get self [(''select'', PStr ''count''), (''count'', PStr ''exact'')])
             = Inr count_response"
      and t: "total_count_of count_response = Inr total_count"
      and f: "isl (env (sent @ [http_get self [(''select'', PStr ''count''), (''count'', PStr ''exact'')]])
           (http_get self [(''select'', PStr ''*''), (''limit'', PInt 1000), (''offset'', PInt 0)]))"
  proof -
    have c': "env sent (http_get self count_params) = Inr count_response"
      using c by (simp add: count_params_eq)
    have f': "fst (get_all_metrics env self 1000 0 (sent @ [http_get self count_params])) = Inr (PList [])"
      using f by (auto simp: get_all_metrics_eq count_params_eq isl_def)
    show ?thesis
      using get_metrics_summary_of_records [OF c' t f'] by (simp add: summary_eq)
  qed
  from 1 2 3 4 5 6 7 8 9 show ?thesis by blast
qed

theorem no_exception_propagates_witness:
  "isl (fst (create_metric_try offline repo0 payload0 [])) \<and>
   fst (create_metric offline repo0 payload0 []) = Inr PNone \<and>
   isl (fst (get_metric_by_keys_try offline repo0 ''r1'' ''i1'' [])) \<and>
   fst (get_metric_by_keys offline repo0 ''r1'' ''i1'' []) = Inr PNone \<and>
   isl (fst (get_metrics_by_repo_try offline repo0 ''r1'' 100 0 [])) \<and>
   fst (get_metrics_by_repo offline repo0 ''r1'' 100 0 []) = Inr (PList []) \<and>
   isl (fst (get_metrics_by_import_try offline repo0 ''i1'' 100 0 [])) \<and>
   fst (get_metrics_by_import offline repo0 ''i1'' 100 0 []) = Inr (PList []) \<and>
   isl (fst (get_all_metrics_try offline repo0 100 0 [])) \<and>
   fst (get_all_metrics offline repo0 100 0 []) = Inr (PList []) \<and>
   isl (fst (get_metrics_by_score_range_try offline repo0 ''totalScore'' 5 10 [])) \<and>
   fst (get_metrics_by_score_range offline repo0 ''totalScore'' 5 10 []) = Inr (PList []) \<and>
   isl (fst (get_metrics_summary_try offline repo0 [])) \<and>
   fst (get_metrics_summary offline repo0 []) =
     Inr (PDict [(''total_count'', PInt 0), (''average_scores'', PDict [])]) \<and>
   isl (fst (get_repo_metrics_summary_try
               (answering 200 Map.empty (Inr (PList [PStr ''not a record'']))) repo0 ''r1'' [])) \<and>
   fst (get_repo_metrics_summary
          (answering 200 Map.empty (Inr (PList [PStr ''not a record'']))) repo0 ''r1'' []) =
     Inr (PDict [(''repo_id'', PStr ''r1''), (''metric_count'', PInt 0),
                 (''average_scores'', PDict [])]) \<and>
   fst (get_metrics_summary (first_then (counted ''0-4/5'') offline) repo0 []) =
     Inr (PDict [(''total_count'', PInt 5), (''average_scores'', PDict [])])"
proof -
  have v: "valid_payload payload0"
    by (simp add: valid_payload_def payload0_def required_fields_def)
  have 1: "isl (fst (create_metric_try offline repo0 payload0 []))"
    by (simp add: create_metric_try_valid [OF v] offline_def)
  have 2: "isl (fst (get_metric_by_keys_try offline repo0 ''r1'' ''i1'' []))"
    by (simp add: get_metric_by_keys_try_def Let_def requests_send_def offline_def)
  have 3: "isl (fst (get_metrics_by_repo_try offline repo0 ''r1'' 100 0 []))"
    by (simp add: get_metrics_by_repo_try_def Let_def json_or_empty_def requests_send_def offline_def)
  have 4: "isl (fst (get_metrics_by_import_try offline repo0 ''i1'' 100 0 []))"
    by (simp add: get_metrics_by_import_try_def Let_def json_or_empty_def requests_send_def offline_def)
  have 5: "isl (fst (get_all_metrics_try offline repo0 100 0 []))"
    by (simp add: get_all_metrics_try_def Let_def json_or_empty_def requests_send_def offline_def)
  have 6: "isl (fst (get_metrics_by_score_range_try offline repo0 ''totalScore'' 5 10 []))"
    by (simp add: get_metrics_by_score_range_try_def valid_score_fields_def Let_def json_or_empty_def
        requests_send_def offline_def)
  have 7: "isl (fst (get_metrics_summary_try offline repo0 []))"
    by (simp add: get_metrics_summary_try_def requests_send_def offline_def)
  have 8: "isl (fst (get_repo_metrics_summary_try
               (answering 200 Map.empty (Inr (PList [PStr ''not a record'']))) repo0 ''r1'' []))"
    by (simp add: get_repo_metrics_summary_try_def get_metrics_by_repo_eq answering_def
        score_fields_def average_of_def)
  show ?thesis
    using 1 2 3 4 5 6 7 8
      no_exception_propagates [where env = offline and self = repo0 and metric_data = payload0
        and sent = "[]" and repo_id = "''r1''" and import_id = "''i1''" and limit = 100
        and offset = 0 and score_field = "''totalScore''" and min_score = 5 and max_score = 10]
      no_exception_propagates [where env = "answering 200 Map.empty (Inr (PList [PStr ''not a record'']))"
        and self = repo0 and sent = "[]" and repo_id = "''r1''"]
      no_exception_propagates [where env = "first_then (counted ''0-4/5'') offline" and self = repo0
        and sent = "[]" and total_count = 5
        and count_response = "\<lparr> status_code = 200, resp_headers = [''content-range'' \<mapsto> ''0-4/5''],
           resp_json = Inr (PList [PDict [(''count'', PInt 0)]]) \<rparr>"]
    by (simp add: first_then_def counted_def offline_def total_count_of_def py_int_5)
qed


text \<open>
  Claim C8 as stated fails for \<^verbatim>\<open>get_metrics_summary\<close>: when the count request is answered
  with a total of 5 and the fetch raises, the result is not the zeroed summary.
\<close>

theorem summary_fetch_failure_counterexample:
  "first_then (counted ''0-4/5'') offline
     [http_get repo0 [(''select'', PStr ''count''), (''count'', PStr ''exact'')]]
     (http_get repo0 [(''select'', PStr ''*''), (''limit'', PInt 1000), (''offset'', PInt 0)])
     = Inl RequestException \<and>
   fst (get_metrics_summary (first_then (counted ''0-4/5'') offline) repo0 []) =
     Inr (PDict [(''total_count'', PInt 5), (''average_scores'', PDict [])]) \<and>
   fst (get_metrics_summary (first_then (counted ''0-4/5'') offline) repo0 []) \<noteq>
     Inr (PDict [(''total_count'', PInt 0), (''average_scores'', PDict [])])"
  by (simp add: get_metrics_summary_def get_metrics_summary_try_def requests_send_def
      count_params_eq first_then_def counted_def offline_def total_count_of_def py_int_5
      get_all_metrics_eq default_offset_def summary_eq except_Exception_simps)



end
